theory Spec2Isabelle
  imports Main "HOL-Library.AList" "HOL-Library.Char_ord" "HOL-Library.List_Lexorder"
begin

section \<open>Rainier: a CNI plugin wiring containers to an OVS bridge\<close>

text \<open>
  The plugin is one Go file (package main). Two revisions of it are in the repository:
  the one with the IPAM delegate (functions \<open>cmdAdd\<close>, \<open>cmdDel\<close> below) and
  \<open>rainier.go\<close>, which has no IPAM step (functions \<open>rainier_cmdAdd\<close>,
  \<open>rainier_cmdDel\<close> below). The helpers \<open>createVeth\<close>, \<open>createOvsBr\<close>,
  \<open>addOvsPort\<close>, \<open>deleteOvsPort\<close>, \<open>readHostInterfacesFromFile\<close> and
  \<open>writeHostInterfacesToFile\<close> are the same in both.

  Everything the plugin calls outside its own file (encoding/json, the OVS client, the
  namespace and veth helpers, the IPAM delegate, the result printer) is a field of the
  record \<open>world\<close>: a function from the call's arguments to what the call returns. The
  file \<open>/tmp/rainier.json\<close>, the package variable \<open>hostInterfaces\<close> and the sequence
  of external calls made so far are the \<open>state\<close>, passed through every function.
\<close>

subsection \<open>Data\<close>

type_synonym bytes = string

text \<open>The dynamic value of a Go \<open>interface{}\<close>, as far as the plugin tells values apart:
  it compares with \<open>nil\<close> and asserts \<open>.(string)\<close>. \<open>AOther\<close> is any value that is
  neither (a bool, a float64, a slice, a map), with some rendering of it.\<close>

datatype any = ANil | AStr string | AOther string

text \<open>A Go \<open>map[string]interface{}\<close>: \<open>None\<close> is the nil map, \<open>Some kvs\<close> a map
  holding the entries of the association list \<open>kvs\<close> (one entry per key).\<close>

type_synonym gomap = "(string \<times> any) list option"

text \<open>\<open>m[k]\<close>: the zero value \<open>nil\<close> when the key is absent, also on the nil map.\<close>

definition map_index :: "gomap \<Rightarrow> string \<Rightarrow> any" where
  "map_index m k =
     (case m of
        None \<Rightarrow> ANil
      | Some kvs \<Rightarrow> (case map_of kvs k of None \<Rightarrow> ANil | Some v \<Rightarrow> v))"

text \<open>\<open>m[k] = v\<close>: panics on the nil map (the result \<open>None\<close>).\<close>

definition map_assign :: "gomap \<Rightarrow> string \<Rightarrow> any \<Rightarrow> gomap option" where
  "map_assign m k v =
     (case m of
        None \<Rightarrow> None
      | Some kvs \<Rightarrow> Some (Some (AList.update k v kvs)))"

text \<open>\<open>delete(m, k)\<close>: no effect on the nil map or on an absent key.\<close>

definition map_delete :: "gomap \<Rightarrow> string \<Rightarrow> gomap" where
  "map_delete m k =
     (case m of
        None \<Rightarrow> None
      | Some kvs \<Rightarrow> Some (AList.delete k kvs))"

text \<open>\<open>types.DNS\<close>, \<open>types.NetConf\<close> (the fields the plugin reads, and the
  network's name and type) and \<open>RainierConfig\<close>, which embeds \<open>types.NetConf\<close>.\<close>

record DNS =
  Nameservers :: "string list"
  Domain :: string
  Search :: "string list"
  Options :: "string list"

record NetConf =
  CNIVersion :: string
  Name :: string
  Type :: string
  IPAM_Type :: string
  DNS :: DNS

record RainierConfig = NetConf +
  PublicBridgeName :: string

text \<open>\<open>skel.CmdArgs\<close>.\<close>

record CmdArgs =
  ContainerID :: string
  Netns :: string
  IfName :: string
  Args :: string
  Path :: string
  StdinData :: bytes

text \<open>\<open>current.Interface\<close>, \<open>current.IPConfig\<close> (\<open>Interface\<close> is a \<open>*int\<close>: \<open>None\<close>
  is the nil pointer) and \<open>current.Result\<close>.\<close>

record Interface =
  if_Name :: string
  if_Mac :: string
  if_Sandbox :: string

record IPConfig =
  ip_Version :: string
  ip_Interface :: "int option"
  ip_Address :: string
  ip_Gateway :: string

record Result =
  res_CNIVersion :: string
  Interfaces :: "Interface list"
  IPs :: "IPConfig list"
  Routes :: "string list"
  res_DNS :: DNS

text \<open>A namespace handle (\<open>ns.NetNS\<close>) with what its \<open>Path()\<close> returns, a link as
  \<open>ip.SetupVeth\<close> returns it (\<open>net.Interface\<close>, the hardware address already in its
  \<open>String()\<close> form), and the delegate's result before conversion (\<open>types.Result\<close>).\<close>

record NetNS =
  ns_Path :: string

record net_Interface =
  ni_Name :: string
  ni_HardwareAddr :: string

datatype types_Result = RawResult bytes

definition DefaultMTU :: nat where
  "DefaultMTU = 1500"

subsection \<open>Errors and outcomes\<close>

text \<open>One constructor for each place where the plugin returns a non-nil error. Errors
  passed on unchanged carry the callee's message; the \<open>fmt.Errorf\<close> ones carry the
  arguments of their format string.\<close>

datatype error =
    UnmarshalError string
  | AddBridgeError string string
  | OpenNetnsError string string
  | SetupVethError string
  | AddPortError string string string
  | ExecAddError string
  | NewResultError string
  | NoIPAddress
  | ConfigureIfaceError string
  | PrintResultError string
  | ExecDelError string
  | DeletePortError string string string
  | DecodeJSONError
  | EncodeJSONError
  | WriteJSONError
  | NotImplemented

text \<open>What a command does: return nil, return an error, or panic.\<close>

datatype outcome = Success | Failure error | Panic

subsection \<open>The outside world\<close>

text \<open>What \<open>json.Unmarshal\<close> finds in the bytes of the state file when the target is
  the map: bytes that are no JSON or no JSON object (an error, the target untouched), the
  literal \<open>null\<close> (the target becomes the nil map), an object, whose members are
  stored into the target one after the other, or an object with a member whose value
  does not fit its Go type (a number too large for a \<open>float64\<close>): then the members
  are stored, as far as they were decoded, and an error is returned all the same.\<close>

datatype map_decode =
    DecodeError string
  | DecodeNull
  | DecodeObject "(string \<times> any) list"
  | DecodePartial string "(string \<times> any) list"

record world =
  json_Unmarshal_config :: "bytes \<Rightarrow> string + RainierConfig"
  json_Unmarshal_map :: "bytes \<Rightarrow> map_decode"
  json_Marshal_map :: "gomap \<Rightarrow> string + bytes"
  ovs_AddBridge :: "string \<Rightarrow> string option"
  ovs_AddPort :: "string \<Rightarrow> string \<Rightarrow> string option"
  ovs_exec_error :: "string list \<Rightarrow> string option"
  ovs_port_bridge :: "string \<Rightarrow> string option"
  ns_GetNS :: "string \<Rightarrow> string + NetNS"
  ip_SetupVeth :: "NetNS \<Rightarrow> string \<Rightarrow> nat \<Rightarrow> string + (net_Interface \<times> net_Interface)"
  ipam_ExecAdd :: "string \<Rightarrow> bytes \<Rightarrow> string + types_Result"
  current_NewResultFromResult :: "types_Result \<Rightarrow> string + Result"
  ipam_ConfigureIface :: "NetNS \<Rightarrow> string \<Rightarrow> Result \<Rightarrow> string option"
  types_PrintResult :: "Result \<Rightarrow> string \<Rightarrow> string option"
  ipam_ExecDel :: "string \<Rightarrow> bytes \<Rightarrow> string option"

text \<open>
  \<open>VSwitch.DeletePort\<close> of the OVS client. The client runs
  \<open>ovs-vsctl --if-exists del-port bridge port\<close> and returns the command's error.
  \<open>ovs_exec_error\<close> is the error of a command that cannot be carried out at all (no
  privilege, no \<open>ovs-vsctl\<close>, no connection to the database), \<open>ovs_port_bridge\<close> the
  bridge that has a port, if the switch has the port. With \<open>--if-exists\<close> a port that
  the switch does not have is no error and nothing is done; a port of another bridge is
  an error.
\<close>

definition ovs_DeletePort :: "world \<Rightarrow> string \<Rightarrow> string \<Rightarrow> string option" where
  "ovs_DeletePort w bridge port =
     (case ovs_exec_error w [''--if-exists'', ''del-port'', bridge, port] of
        Some err \<Rightarrow> Some err
      | None \<Rightarrow>
          (case ovs_port_bridge w port of
             None \<Rightarrow> None
           | Some b \<Rightarrow>
               (if b = bridge then None
                else Some (''ovs-vsctl: bridge '' @ bridge @ '' does not have a port '' @ port))))"

text \<open>The calls that leave the process, in the order they are made.\<close>

datatype event =
    AddBridge string
  | GetNS string
  | CloseNS string
  | SetupVeth string string nat
  | AddPort string string
  | DeletePort string string
  | Println string string
  | ExecAdd string bytes
  | ExecDel string bytes
  | ConfigureIface string string Result
  | PrintResult Result string
  | ReadFile
  | WriteFile bytes

text \<open>\<open>jsonFile\<close> is the content of \<open>/tmp/rainier.json\<close> (\<open>None\<close>: no such file);
  \<open>readable\<close> and \<open>writable\<close> say whether the process may read and write it.\<close>

record state =
  hostInterfaces :: gomap
  jsonFile :: "bytes option"
  readable :: bool
  writable :: bool
  trace :: "event list"

definition emit :: "event \<Rightarrow> state \<Rightarrow> state" where
  "emit e s = s\<lparr>trace := trace s @ [e]\<rparr>"

text \<open>\<open>ioutil.ReadFile\<close> and \<open>ioutil.WriteFile\<close> on the state file. A read fails
  (\<open>None\<close>) when there is no file or it may not be read. A write replaces the whole
  content; it fails (\<open>False\<close>) when the file may not be written, and then leaves the
  content as it was.\<close>

definition ioutil_ReadFile :: "state \<Rightarrow> bytes option \<times> state" where
  "ioutil_ReadFile s = ((if readable s then jsonFile s else None), emit ReadFile s)"

definition ioutil_WriteFile :: "bytes \<Rightarrow> state \<Rightarrow> bool \<times> state" where
  "ioutil_WriteFile b s =
     (if writable s then (True, (emit (WriteFile b) s)\<lparr>jsonFile := Some b\<rparr>)
      else (False, emit (WriteFile b) s))"

text \<open>\<open>json.Unmarshal(jsonByte, &m)\<close> for a map \<open>m\<close>: the error, if any, and the map
  afterwards. An object is decoded into the existing map, entry by entry (a nil map is
  made first), so keys of the map that the object does not have stay.\<close>

definition json_Unmarshal_into :: "world \<Rightarrow> bytes \<Rightarrow> gomap \<Rightarrow> string option \<times> gomap" where
  "json_Unmarshal_into w b m =
     (case json_Unmarshal_map w b of
        DecodeError e \<Rightarrow> (Some e, m)
      | DecodeNull \<Rightarrow> (None, None)
      | DecodeObject kvs \<Rightarrow>
          (None, Some (fold (\<lambda>(k, v) acc. AList.update k v acc) kvs
                         (case m of None \<Rightarrow> [] | Some old \<Rightarrow> old)))
      | DecodePartial e kvs \<Rightarrow>
          (Some e, Some (fold (\<lambda>(k, v) acc. AList.update k v acc) kvs
                           (case m of None \<Rightarrow> [] | Some old \<Rightarrow> old))))"

subsection \<open>The helpers\<close>

definition createVeth ::
  "world \<Rightarrow> NetNS \<Rightarrow> string \<Rightarrow> state \<Rightarrow> (error + Interface \<times> Interface) \<times> state" where
  "createVeth w netns ifName s =
     (let s' = emit (SetupVeth (ns_Path netns) ifName DefaultMTU) s in
      case ip_SetupVeth w netns ifName DefaultMTU of
        Inl err \<Rightarrow> (Inl (SetupVethError err), s')
      | Inr (hostVeth, containerVeth) \<Rightarrow>
          (Inr (\<lparr>if_Name = ni_Name hostVeth, if_Mac = [], if_Sandbox = []\<rparr>,
                \<lparr>if_Name = ni_Name containerVeth,
                 if_Mac = ni_HardwareAddr containerVeth,
                 if_Sandbox = ns_Path netns\<rparr>), s'))"

definition createOvsBr :: "world \<Rightarrow> string \<Rightarrow> state \<Rightarrow> error option \<times> state" where
  "createOvsBr w bridgeName s =
     (let s' = emit (AddBridge bridgeName) s in
      case ovs_AddBridge w bridgeName of
        Some err \<Rightarrow> (Some (AddBridgeError bridgeName err), s')
      | None \<Rightarrow> (None, s'))"

definition addOvsPort :: "world \<Rightarrow> string \<Rightarrow> string \<Rightarrow> state \<Rightarrow> error option \<times> state" where
  "addOvsPort w bridgeName hostIfName s =
     (let s' = emit (AddPort bridgeName hostIfName) s in
      case ovs_AddPort w bridgeName hostIfName of
        Some err \<Rightarrow> (Some (AddPortError hostIfName bridgeName err), s')
      | None \<Rightarrow> (None, s'))"

definition deleteOvsPort :: "world \<Rightarrow> string \<Rightarrow> string \<Rightarrow> state \<Rightarrow> error option \<times> state" where
  "deleteOvsPort w bridgeName hostIfName s =
     (let s' = emit (DeletePort bridgeName hostIfName) s in
      case ovs_DeletePort w bridgeName hostIfName of
        Some err \<Rightarrow>
          (Some (DeletePortError hostIfName bridgeName err),
           emit (Println bridgeName hostIfName) s')
      | None \<Rightarrow> (None, s'))"

definition readHostInterfacesFromFile :: "world \<Rightarrow> state \<Rightarrow> error option \<times> state" where
  "readHostInterfacesFromFile w s =
     (case ioutil_ReadFile s of
        (None, s') \<Rightarrow> (None, s')
      | (Some jsonByte, s') \<Rightarrow>
          (case json_Unmarshal_into w jsonByte (hostInterfaces s') of
             (Some _, m) \<Rightarrow> (Some DecodeJSONError, s'\<lparr>hostInterfaces := m\<rparr>)
           | (None, m) \<Rightarrow> (None, s'\<lparr>hostInterfaces := m\<rparr>)))"

definition writeHostInterfacesToFile :: "world \<Rightarrow> state \<Rightarrow> error option \<times> state" where
  "writeHostInterfacesToFile w s =
     (case json_Marshal_map w (hostInterfaces s) of
        Inl _ \<Rightarrow> (Some EncodeJSONError, s)
      | Inr jsonByte \<Rightarrow>
          (case ioutil_WriteFile jsonByte s of
             (False, s') \<Rightarrow> (Some WriteJSONError, s')
           | (True, s') \<Rightarrow> (None, s')))"

subsection \<open>The commands, with the IPAM delegate\<close>

text \<open>\<open>cmdAdd\<close> after \<open>defer netns.Close()\<close>: from the veth pair to the printed
  result. The errors of \<open>readHostInterfacesFromFile\<close> and
  \<open>writeHostInterfacesToFile\<close> are dropped, as the call statements drop them.\<close>

definition cmdAdd_in_netns ::
  "world \<Rightarrow> CmdArgs \<Rightarrow> RainierConfig \<Rightarrow> NetNS \<Rightarrow> state \<Rightarrow> outcome \<times> state" where
  "cmdAdd_in_netns w args config netns s =
     (case createVeth w netns (IfName args) s of
        (Inl err, s1) \<Rightarrow> (Failure err, s1)
      | (Inr (hostInterface, containerInterface), s1) \<Rightarrow>
     (case addOvsPort w (PublicBridgeName config) (if_Name hostInterface) s1 of
        (Some err, s2) \<Rightarrow> (Failure err, s2)
      | (None, s2) \<Rightarrow>
     (let s3 = emit (ExecAdd (IPAM_Type config) (StdinData args)) s2 in
      case ipam_ExecAdd w (IPAM_Type config) (StdinData args) of
        Inl err \<Rightarrow> (Failure (ExecAddError err), s3)
      | Inr r \<Rightarrow>
     (case current_NewResultFromResult w r of
        Inl err \<Rightarrow> (Failure (NewResultError err), s3)
      | Inr result \<Rightarrow>
     (if length (IPs result) = 0 then (Failure NoIPAddress, s3)
      else
       (let result1 = result\<lparr>IPs := map (\<lambda>ip. ip\<lparr>ip_Interface := Some 0\<rparr>) (IPs result)\<rparr>;
            result2 = result1\<lparr>Interfaces := [containerInterface]\<rparr>;
            s4 = emit (ConfigureIface (ns_Path netns) (if_Name containerInterface) result2) s3
        in
        case ipam_ConfigureIface w netns (if_Name containerInterface) result2 of
          Some err \<Rightarrow> (Failure (ConfigureIfaceError err), s4)
        | None \<Rightarrow>
       (let result3 = result2\<lparr>res_DNS := DNS config\<rparr>;
            s5 = snd (readHostInterfacesFromFile w s4)
        in
        case map_assign (hostInterfaces s5) (ContainerID args) (AStr (if_Name hostInterface)) of
          None \<Rightarrow> (Panic, s5)
        | Some m \<Rightarrow>
       (let s6 = snd (writeHostInterfacesToFile w (s5\<lparr>hostInterfaces := m\<rparr>));
            s7 = emit (PrintResult result3 (CNIVersion config)) s6
        in
        case types_PrintResult w result3 (CNIVersion config) of
          Some err \<Rightarrow> (Failure (PrintResultError err), s7)
        | None \<Rightarrow> (Success, s7)))))))))"

definition cmdAdd :: "world \<Rightarrow> CmdArgs \<Rightarrow> state \<Rightarrow> outcome \<times> state" where
  "cmdAdd w args s =
     (case json_Unmarshal_config w (StdinData args) of
        Inl err \<Rightarrow> (Failure (UnmarshalError err), s)
      | Inr config \<Rightarrow>
     (case createOvsBr w (PublicBridgeName config) s of
        (Some err, s1) \<Rightarrow> (Failure err, s1)
      | (None, s1) \<Rightarrow>
     (let s2 = emit (GetNS (Netns args)) s1 in
      case ns_GetNS w (Netns args) of
        Inl err \<Rightarrow> (Failure (OpenNetnsError (Netns args) err), s2)
      | Inr netns \<Rightarrow>
          (case cmdAdd_in_netns w args config netns s2 of
             (out, s3) \<Rightarrow> (out, emit (CloseNS (ns_Path netns)) s3)))))"

text \<open>\<open>cmdDel\<close>. The type assertion \<open>hostIfName.(string)\<close> is evaluated before
  \<open>deleteOvsPort\<close> is entered and panics on a value that is no string.\<close>

definition cmdDel :: "world \<Rightarrow> CmdArgs \<Rightarrow> state \<Rightarrow> outcome \<times> state" where
  "cmdDel w args s =
     (case json_Unmarshal_config w (StdinData args) of
        Inl err \<Rightarrow> (Failure (UnmarshalError err), s)
      | Inr config \<Rightarrow>
     (let s1 = emit (ExecDel (IPAM_Type config) (StdinData args)) s in
      case ipam_ExecDel w (IPAM_Type config) (StdinData args) of
        Some err \<Rightarrow> (Failure (ExecDelError err), s1)
      | None \<Rightarrow>
     (let s2 = snd (readHostInterfacesFromFile w s1);
          hostIfName = map_index (hostInterfaces s2) (ContainerID args)
      in
      if hostIfName \<noteq> ANil then
        (case hostIfName of
           AStr name \<Rightarrow>
             (case deleteOvsPort w (PublicBridgeName config) name s2 of
                (Some err, s3) \<Rightarrow> (Failure err, s3)
              | (None, s3) \<Rightarrow>
                  (let s4 = s3\<lparr>hostInterfaces := map_delete (hostInterfaces s3) (ContainerID args)\<rparr>;
                       s5 = snd (writeHostInterfacesToFile w s4)
                   in (Success, s5)))
         | _ \<Rightarrow> (Panic, s2))
      else (Success, s2))))"

definition cmdGet :: "CmdArgs \<Rightarrow> state \<Rightarrow> outcome \<times> state" where
  "cmdGet args s = (Failure NotImplemented, s)"

subsection \<open>The commands of rainier.go, without the IPAM delegate\<close>

definition rainier_cmdAdd :: "world \<Rightarrow> CmdArgs \<Rightarrow> state \<Rightarrow> outcome \<times> state" where
  "rainier_cmdAdd w args s =
     (case json_Unmarshal_config w (StdinData args) of
        Inl err \<Rightarrow> (Failure (UnmarshalError err), s)
      | Inr config \<Rightarrow>
     (case createOvsBr w (PublicBridgeName config) s of
        (Some err, s1) \<Rightarrow> (Failure err, s1)
      | (None, s1) \<Rightarrow>
     (let s2 = emit (GetNS (Netns args)) s1 in
      case ns_GetNS w (Netns args) of
        Inl err \<Rightarrow> (Failure (OpenNetnsError (Netns args) err), s2)
      | Inr netns \<Rightarrow>
     (case
        (case createVeth w netns (IfName args) s2 of
           (Inl err, s3) \<Rightarrow> (Failure err, s3)
         | (Inr (hostInterface, _), s3) \<Rightarrow>
        (case addOvsPort w (PublicBridgeName config) (if_Name hostInterface) s3 of
           (Some err, s4) \<Rightarrow> (Failure err, s4)
         | (None, s4) \<Rightarrow>
        (let s5 = snd (readHostInterfacesFromFile w s4) in
         case map_assign (hostInterfaces s5) (ContainerID args) (AStr (if_Name hostInterface)) of
           None \<Rightarrow> (Panic, s5)
         | Some m \<Rightarrow>
             (Success, snd (writeHostInterfacesToFile w (s5\<lparr>hostInterfaces := m\<rparr>))))))
      of (out, s6) \<Rightarrow> (out, emit (CloseNS (ns_Path netns)) s6)))))"

text \<open>Here the type assertion is made on whatever the lookup returns, so it panics
  on \<open>nil\<close> too: on a container the map has no entry for.\<close>

definition rainier_cmdDel :: "world \<Rightarrow> CmdArgs \<Rightarrow> state \<Rightarrow> outcome \<times> state" where
  "rainier_cmdDel w args s =
     (case json_Unmarshal_config w (StdinData args) of
        Inl err \<Rightarrow> (Failure (UnmarshalError err), s)
      | Inr config \<Rightarrow>
     (let s1 = snd (readHostInterfacesFromFile w s) in
      case map_index (hostInterfaces s1) (ContainerID args) of
        AStr hostIfName \<Rightarrow>
          (case deleteOvsPort w (PublicBridgeName config) hostIfName s1 of
             (Some err, s2) \<Rightarrow> (Failure err, s2)
           | (None, s2) \<Rightarrow>
               (let s3 = s2\<lparr>hostInterfaces := map_delete (hostInterfaces s2) (ContainerID args)\<rparr>;
                    s4 = snd (writeHostInterfacesToFile w s3)
                in (Success, s4)))
      | _ \<Rightarrow> (Panic, s1)))"

subsection \<open>Observations\<close>

text \<open>The results the plugin has printed, with the version they were printed in.\<close>

fun emitted :: "event list \<Rightarrow> (Result \<times> string) list" where
  "emitted [] = []"
| "emitted (PrintResult r v # evs) = (r, v) # emitted evs"
| "emitted (_ # evs) = emitted evs"

subsection \<open>Two invocations on one state file\<close>

text \<open>
  Each invocation is a process of its own, with its own \<open>hostInterfaces\<close>; the state
  file is the only thing two invocations share, and the plugin takes no lock on it. The
  store is updated by three statements of \<open>cmdAdd\<close>: the call of
  \<open>readHostInterfacesFromFile\<close> (\<open>Load\<close>), the assignment
  \<open>hostInterfaces[args.ContainerID] = hostInterface.Name\<close> (\<open>Put\<close>) and the call of
  \<open>writeHostInterfacesToFile\<close> (\<open>Save\<close>). A schedule lists, for two processes
  \<open>PA\<close> and \<open>PB\<close>, the order in which these statements run; \<open>entry p\<close> is the
  container ID and the host interface name of process \<open>p\<close>. The file is readable
  and writable here.
\<close>

datatype proc = PA | PB

datatype stmt = Load | Put | Save

record system =
  shared_file :: "bytes option"
  mapA :: gomap
  mapB :: gomap

definition map_of_proc :: "proc \<Rightarrow> system \<Rightarrow> gomap" where
  "map_of_proc p y = (case p of PA \<Rightarrow> mapA y | PB \<Rightarrow> mapB y)"

definition set_map :: "proc \<Rightarrow> gomap \<Rightarrow> system \<Rightarrow> system" where
  "set_map p m y = (case p of PA \<Rightarrow> y\<lparr>mapA := m\<rparr> | PB \<Rightarrow> y\<lparr>mapB := m\<rparr>)"

text \<open>The state as process \<open>p\<close> sees it: its own map and the shared file.\<close>

definition view :: "proc \<Rightarrow> system \<Rightarrow> state" where
  "view p y =
     \<lparr>hostInterfaces = map_of_proc p y, jsonFile = shared_file y,
      readable = True, writable = True, trace = []\<rparr>"

text \<open>One statement of one process; \<open>None\<close> when it panics.\<close>

definition exec_stmt ::
  "world \<Rightarrow> (proc \<Rightarrow> string \<times> string) \<Rightarrow> proc \<times> stmt \<Rightarrow> system \<Rightarrow> system option" where
  "exec_stmt w entry ps y =
     (case ps of
        (p, Load) \<Rightarrow>
          Some (set_map p (hostInterfaces (snd (readHostInterfacesFromFile w (view p y)))) y)
      | (p, Put) \<Rightarrow>
          (case map_assign (map_of_proc p y) (fst (entry p)) (AStr (snd (entry p))) of
             None \<Rightarrow> None
           | Some m \<Rightarrow> Some (set_map p m y))
      | (p, Save) \<Rightarrow>
          Some (y\<lparr>shared_file := jsonFile (snd (writeHostInterfacesToFile w (view p y)))\<rparr>))"

fun run ::
  "world \<Rightarrow> (proc \<Rightarrow> string \<times> string) \<Rightarrow> (proc \<times> stmt) list \<Rightarrow> system \<Rightarrow> system option" where
  "run w entry [] y = Some y"
| "run w entry (ps # rest) y =
     (case exec_stmt w entry ps y of
        None \<Rightarrow> None
      | Some y' \<Rightarrow> run w entry rest y')"

text \<open>Both processes start with the empty map that \<open>make\<close> returns.\<close>

definition start :: "bytes option \<Rightarrow> system" where
  "start content = \<lparr>shared_file = content, mapA = Some [], mapB = Some []\<rparr>"

definition one_after_the_other :: "(proc \<times> stmt) list" where
  "one_after_the_other = [(PA, Load), (PA, Put), (PA, Save), (PB, Load), (PB, Put), (PB, Save)]"

definition overlapping :: "(proc \<times> stmt) list" where
  "overlapping = [(PA, Load), (PB, Load), (PA, Put), (PB, Put), (PA, Save), (PB, Save)]"

subsection \<open>A concrete world\<close>

text \<open>An environment to run the commands in: an OVS that accepts every bridge and port
  but a bridge with the empty name and has every \<open>veth-\<close> port on \<open>br0\<close>, a
  namespace under every path, a veth pair whose host
  end is named after the namespace (the path without its fifteen characters of directory),
  and a \<open>host-local\<close> delegate that hands out one address.
  Its JSON codec for the state file is the one defined below.\<close>

definition demo_stdin :: bytes where
  \<open>demo_stdin = ''{"cniVersion":"0.3.1","name":"rainier","type":"rainier","publicBridgeName":"br0","ipam":{"type":"host-local"},"dns":{"nameservers":["8.8.8.8"]}}''\<close>

definition demo_config :: RainierConfig where
  "demo_config =
     \<lparr>CNIVersion = ''0.3.1'', Name = ''rainier'', Type = ''rainier'',
      IPAM_Type = ''host-local'',
      DNS = \<lparr>Nameservers = [''8.8.8.8''], Domain = [], Search = [], Options = []\<rparr>,
      PublicBridgeName = ''br0''\<rparr>"

text \<open>What \<open>json.Unmarshal\<close> leaves in a \<open>RainierConfig\<close> for the object \<open>{}\<close>:
  every field at its zero value.\<close>

definition zero_config :: RainierConfig where
  "zero_config =
     \<lparr>CNIVersion = [], Name = [], Type = [], IPAM_Type = [],
      DNS = \<lparr>Nameservers = [], Domain = [], Search = [], Options = []\<rparr>,
      PublicBridgeName = []\<rparr>"

definition demo_Unmarshal_config :: "bytes \<Rightarrow> string + RainierConfig" where
  "demo_Unmarshal_config b =
     (if b = demo_stdin then Inr demo_config
      else if b = ''{}'' then Inr zero_config
      else Inl ''invalid character'')"

text \<open>
  The codec of the state file follows \<open>encoding/json\<close> for a
  \<open>map[string]interface{}\<close> of strings. \<open>json.Marshal\<close> writes the members in
  the order of their keys, without white space, and each string between double quotes:
  the bytes of \<open>htmlSafeSet\<close> as they are, \<open>"\<close> and the backslash after a
  backslash, line feed, carriage return and tab as \<open>n\<close>, \<open>r\<close>, \<open>t\<close> after a
  backslash, the other bytes below 0x80 (control characters, \<open><\<close>, \<open>>\<close>, \<open>&\<close>) as
  \<open>u00\<close> and two hexadecimal digits after a backslash, a well-formed UTF-8 sequence as
  it is (U+2028 and U+2029 escaped), and every byte that starts no well-formed sequence
  as the escape of U+FFFD.
\<close>

definition dquote :: char where
  "dquote = CHR 0x22"

definition backslash :: char where
  "backslash = CHR 0x5C"

definition html_safe :: "char \<Rightarrow> bool" where
  "html_safe c =
     (CHR 0x20 \<le> c \<and> c < CHR 0x80 \<and> c \<noteq> dquote \<and> c \<noteq> backslash
      \<and> c \<noteq> CHR ''<'' \<and> c \<noteq> CHR ''>'' \<and> c \<noteq> CHR ''&'')"

definition hex_digit :: "nat \<Rightarrow> char" where
  "hex_digit n = ''0123456789abcdef'' ! n"

text \<open>\<open>utf8.DecodeRuneInString\<close>, for a string that starts with a byte from 0x80:
  the number of bytes of the well-formed sequence at its head, 0 when there is none.\<close>

definition continuation :: "char \<Rightarrow> char \<Rightarrow> nat \<Rightarrow> string \<Rightarrow> bool" where
  "continuation lo hi n cs =
     (case cs of
        [] \<Rightarrow> False
      | c # rest \<Rightarrow>
          lo \<le> c \<and> c \<le> hi \<and> n - 1 \<le> length rest
          \<and> list_all (\<lambda>x. CHR 0x80 \<le> x \<and> x \<le> CHR 0xBF) (take (n - 1) rest))"

definition rune_size :: "string \<Rightarrow> nat" where
  "rune_size s =
     (case s of
        [] \<Rightarrow> 0
      | b # cs \<Rightarrow>
          if CHR 0xC2 \<le> b \<and> b \<le> CHR 0xDF
            then (if continuation (CHR 0x80) (CHR 0xBF) 1 cs then 2 else 0)
          else if b = CHR 0xE0
            then (if continuation (CHR 0xA0) (CHR 0xBF) 2 cs then 3 else 0)
          else if b = CHR 0xED
            then (if continuation (CHR 0x80) (CHR 0x9F) 2 cs then 3 else 0)
          else if CHR 0xE1 \<le> b \<and> b \<le> CHR 0xEF
            then (if continuation (CHR 0x80) (CHR 0xBF) 2 cs then 3 else 0)
          else if b = CHR 0xF0
            then (if continuation (CHR 0x90) (CHR 0xBF) 3 cs then 4 else 0)
          else if CHR 0xF1 \<le> b \<and> b \<le> CHR 0xF3
            then (if continuation (CHR 0x80) (CHR 0xBF) 3 cs then 4 else 0)
          else if b = CHR 0xF4
            then (if continuation (CHR 0x80) (CHR 0x8F) 3 cs then 4 else 0)
          else 0)"

text \<open>The first argument counts the bytes still to copy of a sequence found
  well-formed.\<close>

fun encode_chars :: "nat \<Rightarrow> string \<Rightarrow> string" where
  "encode_chars k [] = []"
| "encode_chars (Suc k) (c # cs) = c # encode_chars k cs"
| "encode_chars 0 (c # cs) =
     (if c < CHR 0x80 then
        (if html_safe c then [c]
         else if c = backslash \<or> c = dquote then [backslash, c]
         else if c = CHR 0x0A then [backslash, CHR ''n'']
         else if c = CHR 0x0D then [backslash, CHR ''r'']
         else if c = CHR 0x09 then [backslash, CHR ''t'']
         else backslash # ''u00'' @ [hex_digit (of_char c div 16), hex_digit (of_char c mod 16)])
        @ encode_chars 0 cs
      else if rune_size (c # cs) = 0 then backslash # ''ufffd'' @ encode_chars 0 cs
      else if c = CHR 0xE2 \<and> take 2 cs = [CHR 0x80, CHR 0xA8]
        then backslash # ''u2028'' @ encode_chars 0 (drop 2 cs)
      else if c = CHR 0xE2 \<and> take 2 cs = [CHR 0x80, CHR 0xA9]
        then backslash # ''u2029'' @ encode_chars 0 (drop 2 cs)
      else c # encode_chars (rune_size (c # cs) - 1) cs)"

definition encode_string :: "string \<Rightarrow> string" where
  "encode_string s = dquote # encode_chars 0 s @ [dquote]"

definition encode_value :: "any \<Rightarrow> string" where
  "encode_value v = (case v of ANil \<Rightarrow> ''null'' | AStr x \<Rightarrow> encode_string x | AOther r \<Rightarrow> r)"

fun render_members :: "(string \<times> any) list \<Rightarrow> string" where
  "render_members [] = []"
| "render_members ((k, v) # kvs) =
     encode_string k @ CHR '':'' # encode_value v
     @ (if kvs = [] then [] else CHR '','' # render_members kvs)"

definition demo_Marshal_map :: "gomap \<Rightarrow> string + bytes" where
  "demo_Marshal_map m =
     (case m of
        None \<Rightarrow> Inr ''null''
      | Some kvs \<Rightarrow> Inr (CHR ''{'' # render_members (sort_key fst kvs) @ ''}''))"

text \<open>
  \<open>json.Unmarshal\<close> reads an object of strings, \<open>null\<close>, \<open>true\<close> and \<open>false\<close>,
  with white space between the tokens. In a string it undoes the escapes (a pair of
  surrogate escapes is one code point, a lone one is U+FFFD), refuses a control
  character, and copies the other bytes, replacing each byte that starts no well-formed
  UTF-8 sequence by U+FFFD. Numbers, arrays and nested objects, which the plugin never
  writes, are not read here: a file that holds one is reported as an error.
\<close>

definition hex_value :: "char \<Rightarrow> nat option" where
  "hex_value c =
     (if CHR ''0'' \<le> c \<and> c \<le> CHR ''9'' then Some (of_char c - 48)
      else if CHR ''a'' \<le> c \<and> c \<le> CHR ''f'' then Some (of_char c - 87)
      else if CHR ''A'' \<le> c \<and> c \<le> CHR ''F'' then Some (of_char c - 55)
      else None)"

definition getu4 :: "string \<Rightarrow> nat option" where
  "getu4 s =
     (case s of
        b # u # h1 # h2 # h3 # h4 # _ \<Rightarrow>
          (if b = backslash \<and> u = CHR ''u'' then
             (case (hex_value h1, hex_value h2, hex_value h3, hex_value h4) of
                (Some a, Some b, Some c, Some d) \<Rightarrow> Some (((a * 16 + b) * 16 + c) * 16 + d)
              | _ \<Rightarrow> None)
           else None)
      | _ \<Rightarrow> None)"

definition utf8_encode :: "nat \<Rightarrow> string" where
  "utf8_encode r =
     (if r < 0x80 then [char_of r]
      else if r < 0x800 then [char_of (0xC0 + r div 64), char_of (0x80 + r mod 64)]
      else if (0xD800 \<le> r \<and> r < 0xE000) \<or> 0x10FFFF < r then [CHR 0xEF, CHR 0xBF, CHR 0xBD]
      else if r < 0x10000 then
        [char_of (0xE0 + r div 4096), char_of (0x80 + r div 64 mod 64), char_of (0x80 + r mod 64)]
      else
        [char_of (0xF0 + r div 262144), char_of (0x80 + r div 4096 mod 64),
         char_of (0x80 + r div 64 mod 64), char_of (0x80 + r mod 64)])"

definition unescape :: "char \<Rightarrow> char option" where
  "unescape e =
     (if e = dquote \<or> e = backslash \<or> e = CHR ''/'' then Some e
      else if e = CHR ''b'' then Some (CHR 0x08)
      else if e = CHR ''f'' then Some (CHR 0x0C)
      else if e = CHR ''n'' then Some (CHR 0x0A)
      else if e = CHR ''r'' then Some (CHR 0x0D)
      else if e = CHR ''t'' then Some (CHR 0x09)
      else None)"

definition prepend :: "string \<Rightarrow> (string \<times> string) option \<Rightarrow> (string \<times> string) option" where
  "prepend x r = (case r of None \<Rightarrow> None | Some (a, rest) \<Rightarrow> Some (x @ a, rest))"

fun decode_chars :: "nat \<Rightarrow> string \<Rightarrow> (string \<times> string) option" where
  "decode_chars k [] = None"
| "decode_chars (Suc k) (c # cs) = prepend [c] (decode_chars k cs)"
| "decode_chars 0 (c # cs) =
     (if c = dquote then Some ([], cs)
      else if c = backslash then
        (case cs of
           [] \<Rightarrow> None
         | e # cs1 \<Rightarrow>
             (if e = CHR ''u'' then
                (case getu4 (c # cs) of
                   None \<Rightarrow> None
                 | Some r \<Rightarrow>
                     (if 0xD800 \<le> r \<and> r < 0xE000 then
                        (case getu4 (drop 5 cs) of
                           None \<Rightarrow> prepend [CHR 0xEF, CHR 0xBF, CHR 0xBD] (decode_chars 0 (drop 5 cs))
                         | Some r2 \<Rightarrow>
                             (if r < 0xDC00 \<and> 0xDC00 \<le> r2 \<and> r2 < 0xE000
                              then prepend (utf8_encode (0x10000 + (r - 0xD800) * 1024 + (r2 - 0xDC00)))
                                     (decode_chars 0 (drop 11 cs))
                              else prepend [CHR 0xEF, CHR 0xBF, CHR 0xBD] (decode_chars 0 (drop 5 cs))))
                      else prepend (utf8_encode r) (decode_chars 0 (drop 5 cs))))
              else (case unescape e of
                      None \<Rightarrow> None
                    | Some x \<Rightarrow> prepend [x] (decode_chars 0 cs1))))
      else if c < CHR 0x20 then None
      else if c < CHR 0x80 then prepend [c] (decode_chars 0 cs)
      else if rune_size (c # cs) = 0 then prepend [CHR 0xEF, CHR 0xBF, CHR 0xBD] (decode_chars 0 cs)
      else prepend [c] (decode_chars (rune_size (c # cs) - 1) cs))"

definition is_space :: "char \<Rightarrow> bool" where
  "is_space c = (c = CHR 0x20 \<or> c = CHR 0x09 \<or> c = CHR 0x0A \<or> c = CHR 0x0D)"

definition skip_space :: "string \<Rightarrow> string" where
  "skip_space s = dropWhile is_space s"

definition decode_value :: "string \<Rightarrow> (any \<times> string) option" where
  "decode_value s =
     (case s of
        [] \<Rightarrow> None
      | c # cs \<Rightarrow>
          (if c = dquote then
             (case decode_chars 0 cs of
                None \<Rightarrow> None
              | Some (x, rest) \<Rightarrow> Some (AStr x, rest))
           else if take 4 s = ''null'' then Some (ANil, drop 4 s)
           else if take 4 s = ''true'' then Some (AOther ''true'', drop 4 s)
           else if take 5 s = ''false'' then Some (AOther ''false'', drop 5 s)
           else None))"

definition decode_member :: "string \<Rightarrow> ((string \<times> any) \<times> string) option" where
  "decode_member s =
     (case skip_space s of
        [] \<Rightarrow> None
      | c # cs \<Rightarrow>
          (if c \<noteq> dquote then None
           else (case decode_chars 0 cs of
                   None \<Rightarrow> None
                 | Some (k, rest) \<Rightarrow>
                     (case skip_space rest of
                        [] \<Rightarrow> None
                      | c1 # rest1 \<Rightarrow>
                          (if c1 \<noteq> CHR '':'' then None
                           else (case decode_value (skip_space rest1) of
                                   None \<Rightarrow> None
                                 | Some (v, rest2) \<Rightarrow> Some ((k, v), skip_space rest2)))))))"

text \<open>The members up to the closing brace, and what follows it; the first argument
  bounds their number.\<close>

fun decode_members :: "nat \<Rightarrow> string \<Rightarrow> ((string \<times> any) list \<times> string) option" where
  "decode_members 0 s = None"
| "decode_members (Suc n) s =
     (case decode_member s of
        None \<Rightarrow> None
      | Some (kv, rest) \<Rightarrow>
          (case rest of
             [] \<Rightarrow> None
           | c # rest' \<Rightarrow>
               (if c = CHR ''}'' then Some ([kv], rest')
                else if c = CHR '','' then
                  (case decode_members n rest' of
                     None \<Rightarrow> None
                   | Some (kvs, rest'') \<Rightarrow> Some (kv # kvs, rest''))
                else None)))"

definition demo_Unmarshal_map :: "bytes \<Rightarrow> map_decode" where
  "demo_Unmarshal_map b =
     (case skip_space b of
        [] \<Rightarrow> DecodeError ''unexpected end of JSON input''
      | c # cs \<Rightarrow>
          (if c = CHR ''{'' then
             (case skip_space cs of
                [] \<Rightarrow> DecodeError ''unexpected end of JSON input''
              | c' # cs' \<Rightarrow>
                  (if c' = CHR ''}'' then
                     (if skip_space cs' = [] then DecodeObject []
                      else DecodeError ''invalid character after top-level value'')
                   else (case decode_members (length cs) cs of
                           None \<Rightarrow> DecodeError ''invalid character''
                         | Some (kvs, rest) \<Rightarrow>
                             (if skip_space rest = [] then DecodeObject kvs
                              else DecodeError ''invalid character after top-level value''))))
           else if take 4 (c # cs) = ''null'' \<and> skip_space (drop 4 (c # cs)) = [] then DecodeNull
           else DecodeError ''cannot unmarshal into Go value of type map[string]interface {}''))"

text \<open>An entry that the encoder writes byte for byte: a key and a string value of
  bytes of \<open>htmlSafeSet\<close>.\<close>

fun plain_member :: "string \<times> any \<Rightarrow> bool" where
  "plain_member (k, AStr x) = (list_all html_safe k \<and> list_all html_safe x)"
| "plain_member (k, v) = False"

definition demo_result :: Result where
  "demo_result =
     \<lparr>res_CNIVersion = ''0.3.1'', Interfaces = [],
      IPs = [\<lparr>ip_Version = ''4'', ip_Interface = None,
              ip_Address = ''10.0.0.2/24'', ip_Gateway = ''10.0.0.1''\<rparr>],
      Routes = [], res_DNS = \<lparr>Nameservers = [], Domain = [], Search = [], Options = []\<rparr>\<rparr>"

definition demo_world :: world where
  "demo_world =
     \<lparr>json_Unmarshal_config = demo_Unmarshal_config,
      json_Unmarshal_map = demo_Unmarshal_map,
      json_Marshal_map = demo_Marshal_map,
      ovs_AddBridge = (\<lambda>br. if br = [] then Some ''ovs-vsctl: bridge name must not be empty'' else None),
      ovs_AddPort = (\<lambda>br port. None),
      ovs_exec_error = (\<lambda>args. None),
      ovs_port_bridge = (\<lambda>port. if take 5 port = ''veth-'' then Some ''br0'' else None),
      ns_GetNS = (\<lambda>path. Inr \<lparr>ns_Path = path\<rparr>),
      ip_SetupVeth = (\<lambda>netns ifName mtu.
         Inr (\<lparr>ni_Name = ''veth-'' @ drop 15 (ns_Path netns),
               ni_HardwareAddr = ''0a:58:0a:00:00:01''\<rparr>,
              \<lparr>ni_Name = ifName, ni_HardwareAddr = ''0a:58:0a:00:00:02''\<rparr>)),
      ipam_ExecAdd = (\<lambda>t b. if t = ''host-local'' then Inr (RawResult b)
                             else Inl ''failed to find plugin in path''),
      current_NewResultFromResult = (\<lambda>r. Inr demo_result),
      ipam_ConfigureIface = (\<lambda>netns ifName r. None),
      types_PrintResult = (\<lambda>r v. None),
      ipam_ExecDel = (\<lambda>t b. if t = ''host-local'' then None
                             else Some ''failed to find plugin in path'')\<rparr>"

text \<open>The same world with a switch that has lost its ports: the port to delete is
  already absent.\<close>

definition absent_port_world :: world where
  "absent_port_world = demo_world\<lparr>ovs_port_bridge := (\<lambda>port. None)\<rparr>"

text \<open>The same world with a switch that cannot be reached.\<close>

definition unreachable_switch_world :: world where
  "unreachable_switch_world =
     demo_world\<lparr>ovs_exec_error := (\<lambda>args. Some ''ovs-vsctl: database connection failed'')\<rparr>"

text \<open>The same world with a delegate whose teardown fails.\<close>

definition failing_delegate_world :: world where
  "failing_delegate_world =
     demo_world\<lparr>ipam_ExecDel := (\<lambda>t b. Some ''delegate failed'')\<rparr>"

text \<open>The same world with a container interface that cannot be configured.\<close>

definition unconfigurable_world :: world where
  "unconfigurable_world =
     demo_world\<lparr>ipam_ConfigureIface := (\<lambda>netns ifName r. Some ''failed to add IP addr'')\<rparr>"

definition demo_args :: "string \<Rightarrow> CmdArgs" where
  "demo_args cid =
     \<lparr>ContainerID = cid, Netns = ''/var/run/netns/'' @ cid, IfName = ''eth0'',
      Args = [], Path = ''/opt/cni/bin'', StdinData = demo_stdin\<rparr>"

text \<open>The state a process starts in: \<open>hostInterfaces\<close> is the empty map that
  \<open>make\<close> returns, nothing has been called yet.\<close>

definition fresh :: "bytes option \<Rightarrow> state" where
  "fresh content =
     \<lparr>hostInterfaces = Some [], jsonFile = content, readable = True, writable = True,
      trace = []\<rparr>"

definition demo_entry :: "proc \<Rightarrow> string \<times> string" where
  "demo_entry p = (case p of PA \<Rightarrow> (''c1'', ''veth-c1'') | PB \<Rightarrow> (''c2'', ''veth-c2''))"

text \<open>State files: one entry, two entries, and bytes that are no JSON.\<close>

definition file_c1 :: bytes where
  \<open>file_c1 = ''{"c1":"veth-c1"}''\<close>

definition file_c1_c2 :: bytes where
  \<open>file_c1_c2 = ''{"c1":"veth-c1","c2":"veth-c2"}''\<close>

definition file_c2 :: bytes where
  \<open>file_c2 = ''{"c2":"veth-c2"}''\<close>

definition file_garbage :: bytes where
  "file_garbage = ''garbage''"




section \<open>Properties\<close>

subsection \<open>Basic facts\<close>

lemmas helper_defs = createVeth_def createOvsBr_def addOvsPort_def deleteOvsPort_def emit_def

lemmas demo_defs = demo_world_def demo_args_def fresh_def demo_Unmarshal_config_def
  demo_config_def demo_Unmarshal_map_def demo_Marshal_map_def dquote_def backslash_def
  encode_string_def encode_value_def html_safe_def rune_size_def continuation_def hex_digit_def
  skip_space_def is_space_def decode_member_def decode_value_def prepend_def
  getu4_def hex_value_def unescape_def
  absent_port_world_def failing_delegate_world_def unconfigurable_world_def
  unreachable_switch_world_def ovs_DeletePort_def

lemmas store_defs = readHostInterfacesFromFile_def writeHostInterfacesToFile_def
  ioutil_ReadFile_def ioutil_WriteFile_def json_Unmarshal_into_def
  map_index_def map_assign_def map_delete_def


lemma emitted_append: "emitted (xs @ ys) = emitted xs @ emitted ys"
  by (induction xs rule: emitted.induct) simp_all

lemma emit_simps:
  "trace (emit e s) = trace s @ [e]"
  "jsonFile (emit e s) = jsonFile s"
  "hostInterfaces (emit e s) = hostInterfaces s"
  "readable (emit e s) = readable s"
  "writable (emit e s) = writable s"
  by (simp_all add: emit_def)

text \<open>Loading touches neither the file nor its permissions, and what it loads does not
  depend on the calls made before.\<close>

lemma read_ignores_trace:
  "hostInterfaces (snd (readHostInterfacesFromFile w (emit e s))) =
     hostInterfaces (snd (readHostInterfacesFromFile w s))"
  "jsonFile (snd (readHostInterfacesFromFile w (emit e s))) = jsonFile s"
  "trace (snd (readHostInterfacesFromFile w (emit e s))) = trace s @ [e, ReadFile]"
  "readable (snd (readHostInterfacesFromFile w s)) = readable s"
  "writable (snd (readHostInterfacesFromFile w s)) = writable s"
  "jsonFile (snd (readHostInterfacesFromFile w s)) = jsonFile s"
  "trace (snd (readHostInterfacesFromFile w s)) = trace s @ [ReadFile]"
  by (auto simp: store_defs emit_def split: option.splits prod.splits map_decode.splits)

lemma read_result_ignores_trace:
  "fst (readHostInterfacesFromFile w (emit e s)) = fst (readHostInterfacesFromFile w s)"
  by (auto simp: store_defs emit_def split: option.splits prod.splits map_decode.splits)

lemma write_simps:
  "trace (snd (writeHostInterfacesToFile w s)) =
     trace s @ (case json_Marshal_map w (hostInterfaces s) of Inl _ \<Rightarrow> [] | Inr b \<Rightarrow> [WriteFile b])"
  "hostInterfaces (snd (writeHostInterfacesToFile w s)) = hostInterfaces s"
  "readable (snd (writeHostInterfacesToFile w s)) = readable s"
  "writable (snd (writeHostInterfacesToFile w s)) = writable s"
  "jsonFile (snd (writeHostInterfacesToFile w s)) =
     (case json_Marshal_map w (hostInterfaces s) of
        Inl _ \<Rightarrow> jsonFile s
      | Inr b \<Rightarrow> if writable s then Some b else jsonFile s)"
  by (simp_all add: writeHostInterfacesToFile_def ioutil_WriteFile_def emit_def split: sum.splits)

lemma emitted_write:
  "emitted (trace (snd (writeHostInterfacesToFile w s))) = emitted (trace s)"
  by (simp add: write_simps emitted_append split: sum.splits)

lemma emitted_read:
  "emitted (trace (snd (readHostInterfacesFromFile w s))) = emitted (trace s)"
  by (simp add: read_ignores_trace emitted_append)

lemma cmdAdd_in_netns_extends_trace:
  "\<exists>evs. trace (snd (cmdAdd_in_netns w args config netns s)) = trace s @ evs"
  unfolding cmdAdd_in_netns_def createVeth_def addOvsPort_def Let_def
  by (simp add: emit_simps read_ignores_trace write_simps split: sum.splits option.splits prod.splits)

lemma cmdAdd_in_netns_no_unmarshal_error:
  "fst (cmdAdd_in_netns w args config netns s) \<noteq> Failure (UnmarshalError m)"
  unfolding cmdAdd_in_netns_def createVeth_def addOvsPort_def Let_def
  by (auto split: sum.splits option.splits prod.splits)

lemma map_of_fold_update:
  "map_of (fold (\<lambda>(k, v) acc. AList.update k v acc) kvs acc) = map_of acc ++ map_of (rev kvs)"
proof (induction kvs arbitrary: acc)
  case Nil
  then show ?case by simp
next
  case (Cons kv kvs)
  obtain k v where kv: "kv = (k, v)" by (cases kv)
  have "map_of (fold (\<lambda>(k, v) acc. AList.update k v acc) (kv # kvs) acc)
          = map_of (AList.update k v acc) ++ map_of (rev kvs)"
    using Cons.IH [of "AList.update k v acc"] by (simp add: kv)
  also have "\<dots> = map_of acc ++ map_of (rev (kv # kvs))"
    by (simp add: kv update_conv')
  finally show ?case .
qed

lemma map_of_rev_distinct:
  "distinct (map fst kvs) \<Longrightarrow> map_of (rev kvs) = map_of kvs"
  by (subst map_of_inject_set) (simp_all add: rev_map [symmetric])

text \<open>Decoding an object into a map keeps the map's other keys and stores the object's
  members.\<close>

lemma json_Unmarshal_into_object:
  assumes "json_Unmarshal_map w b = DecodeObject kvs" and "distinct (map fst kvs)"
  shows "\<exists>m'. json_Unmarshal_into w b (Some old) = (None, Some m')
              \<and> map_of m' = map_of old ++ map_of kvs"
  using assms
  by (simp add: json_Unmarshal_into_def map_of_fold_update map_of_rev_distinct)

subsection \<open>DEL of a container the store does not know\<close>

text \<open>
  Claim C1 says that a DEL whose container has no entry in the state store returns
  success as a no-op, the store being loaded and looked up first and neither the switch
  detach nor the IPAM delegate teardown being invoked. As stated it fails: \<open>cmdDel\<close>
  calls \<open>ipam.ExecDel\<close> before it loads the store, whatever the store holds, and
  returns the delegate's error when the teardown fails. With the store holding only
  \<open>c1\<close>, the DEL of \<open>c99\<close> calls the delegate and then reads the file; with a
  delegate whose teardown fails, the same DEL fails.
\<close>

theorem cmdDel_unknown_container_counterexample:
  "map_index (hostInterfaces (snd (readHostInterfacesFromFile demo_world (fresh (Some file_c1))))) ''c99'' = ANil
   \<and> trace (snd (cmdDel demo_world (demo_args ''c99'') (fresh (Some file_c1))))
       = [ExecDel ''host-local'' demo_stdin, ReadFile]
   \<and> fst (cmdDel failing_delegate_world (demo_args ''c99'') (fresh (Some file_c1)))
       = Failure (ExecDelError ''delegate failed'')"
  by (simp add: cmdDel_def demo_defs store_defs helper_defs file_c1_def)

text \<open>
  Claim C1, amended: for every DEL whose container has no entry (or a \<open>null\<close> one) in
  the loaded store, the delegate teardown is invoked first and the store is loaded after
  it; when the configuration decodes and the teardown succeeds, DEL returns success, the
  external calls it makes are exactly the teardown and the read of the state file (so no
  switch detach and no write), and the file is left as it was.
\<close>

theorem cmdDel_no_entry:
  assumes "json_Unmarshal_config w (StdinData args) = Inr config"
    and "ipam_ExecDel w (IPAM_Type config) (StdinData args) = None"
    and "map_index (hostInterfaces (snd (readHostInterfacesFromFile w s))) (ContainerID args) = ANil"
  shows "fst (cmdDel w args s) = Success
       \<and> trace (snd (cmdDel w args s)) = trace s @ [ExecDel (IPAM_Type config) (StdinData args), ReadFile]
       \<and> jsonFile (snd (cmdDel w args s)) = jsonFile s
       \<and> hostInterfaces (snd (cmdDel w args s)) = hostInterfaces (snd (readHostInterfacesFromFile w s))"
  using assms by (simp add: cmdDel_def Let_def read_ignores_trace emit_simps)

theorem cmdDel_no_entry_witness:
  "fst (cmdDel demo_world (demo_args ''c99'') (fresh (Some file_c1))) = Success
   \<and> jsonFile (snd (cmdDel demo_world (demo_args ''c99'') (fresh (Some file_c1)))) = Some file_c1"
proof -
  have 1: "json_Unmarshal_config demo_world (StdinData (demo_args ''c99'')) = Inr demo_config"
    by (simp add: demo_world_def demo_args_def demo_Unmarshal_config_def)
  have 2: "ipam_ExecDel demo_world (IPAM_Type demo_config) (StdinData (demo_args ''c99'')) = None"
    by (simp add: demo_world_def demo_config_def)
  have 3: "map_index (hostInterfaces (snd (readHostInterfacesFromFile demo_world (fresh (Some file_c1)))))
             (ContainerID (demo_args ''c99'')) = ANil"
    by (simp add: demo_defs store_defs helper_defs file_c1_def)
  show ?thesis
    using cmdDel_no_entry [OF 1 2 3] by (simp add: fresh_def)
qed

text \<open>When the teardown fails, DEL fails with its error and goes no further.\<close>

lemma cmdDel_delegate_failure:
  assumes "json_Unmarshal_config w (StdinData args) = Inr config"
    and "ipam_ExecDel w (IPAM_Type config) (StdinData args) = Some err"
  shows "cmdDel w args s =
           (Failure (ExecDelError err), emit (ExecDel (IPAM_Type config) (StdinData args)) s)"
  using assms by (simp add: cmdDel_def)

text \<open>In rainier.go the lookup's result is asserted to be a string without a test for
  \<open>nil\<close>: the DEL of an unknown container panics.\<close>

lemma rainier_cmdDel_no_entry_panics:
  assumes "json_Unmarshal_config w (StdinData args) = Inr config"
    and "map_index (hostInterfaces (snd (readHostInterfacesFromFile w s))) (ContainerID args) = ANil"
  shows "fst (rainier_cmdDel w args s) = Panic"
  using assms by (simp add: rainier_cmdDel_def Let_def)

subsection \<open>DEL when the port is already gone\<close>




text \<open>A detach that does fail (the command cannot be carried out, or the port belongs
  to another bridge) aborts DEL: DEL returns the error of \<open>deleteOvsPort\<close>, the entry
  stays in the map and the store is not saved.\<close>

lemma cmdDel_detach_error_returned:
  assumes "json_Unmarshal_config w (StdinData args) = Inr config"
    and "ipam_ExecDel w (IPAM_Type config) (StdinData args) = None"
    and "map_index (hostInterfaces (snd (readHostInterfacesFromFile w s))) (ContainerID args)
           = AStr name"
    and "ovs_DeletePort w (PublicBridgeName config) name = Some err"
  shows "fst (cmdDel w args s) = Failure (DeletePortError name (PublicBridgeName config) err)
       \<and> jsonFile (snd (cmdDel w args s)) = jsonFile s
       \<and> hostInterfaces (snd (cmdDel w args s)) = hostInterfaces (snd (readHostInterfacesFromFile w s))
       \<and> trace (snd (cmdDel w args s)) =
           trace s @ [ExecDel (IPAM_Type config) (StdinData args), ReadFile,
                      DeletePort (PublicBridgeName config) name,
                      Println (PublicBridgeName config) name]"
  using assms
  by (simp add: cmdDel_def Let_def read_ignores_trace emit_simps deleteOvsPort_def)

lemma cmdDel_unreachable_switch:
  "cmdDel unreachable_switch_world (demo_args ''c1'') (fresh (Some file_c1)) =
     (Failure (DeletePortError ''veth-c1'' ''br0'' ''ovs-vsctl: database connection failed''),
      \<lparr>hostInterfaces = Some [(''c1'', AStr ''veth-c1'')], jsonFile = Some file_c1,
       readable = True, writable = True,
       trace = [ExecDel ''host-local'' demo_stdin, ReadFile,
                DeletePort ''br0'' ''veth-c1'', Println ''br0'' ''veth-c1'']\<rparr>)"
  by (simp add: cmdDel_def demo_defs store_defs helper_defs file_c1_def)

text \<open>When the detach succeeds, the entry is removed from the map, and the file holds
  the map without it if the map can be encoded and the file written.\<close>

lemma cmdDel_detach_success:
  assumes "json_Unmarshal_config w (StdinData args) = Inr config"
    and "ipam_ExecDel w (IPAM_Type config) (StdinData args) = None"
    and "map_index (hostInterfaces (snd (readHostInterfacesFromFile w s))) (ContainerID args)
           = AStr name"
    and "ovs_DeletePort w (PublicBridgeName config) name = None"
  shows "fst (cmdDel w args s) = Success
       \<and> map_index (hostInterfaces (snd (cmdDel w args s))) (ContainerID args) = ANil
       \<and> (writable s \<and> json_Marshal_map w (map_delete (hostInterfaces (snd (readHostInterfacesFromFile w s))) (ContainerID args)) = Inr b
            \<longrightarrow> jsonFile (snd (cmdDel w args s)) = Some b)"
  using assms
  apply (simp add: cmdDel_def Let_def read_ignores_trace emit_simps deleteOvsPort_def)
  apply (auto simp: writeHostInterfacesToFile_def ioutil_WriteFile_def emit_simps read_ignores_trace
      map_index_def map_delete_def AList.delete_conv split: sum.splits option.splits)
  done

subsection \<open>Errors of the state store\<close>

text \<open>
  Claim C4 says that an ADD or DEL whose write of the mapping fails, fails too, and never
  returns success after a mutation that was not saved. The code does not do so:
  \<open>writeHostInterfacesToFile\<close> returns its error, and both commands call it as a
  statement and drop the error. With a state file that cannot be written, the helper
  reports the failure, ADD returns success with the new entry in its map, and no file has
  been written.
\<close>

theorem cmdAdd_unwritable_store_succeeds:
  "fst (writeHostInterfacesToFile demo_world
          ((fresh None)\<lparr>hostInterfaces := Some [(''c1'', AStr ''veth-c1'')], writable := False\<rparr>))
     = Some WriteJSONError
   \<and> fst (cmdAdd demo_world (demo_args ''c1'') ((fresh None)\<lparr>writable := False\<rparr>)) = Success
   \<and> hostInterfaces (snd (cmdAdd demo_world (demo_args ''c1'') ((fresh None)\<lparr>writable := False\<rparr>)))
       = Some [(''c1'', AStr ''veth-c1'')]
   \<and> jsonFile (snd (cmdAdd demo_world (demo_args ''c1'') ((fresh None)\<lparr>writable := False\<rparr>))) = None"
  by (simp add: cmdAdd_def cmdAdd_in_netns_def demo_defs store_defs helper_defs demo_result_def)

text \<open>The same for DEL: the port is detached, DEL returns success, and the file still
  holds the entry.\<close>

lemma cmdDel_unwritable_store_succeeds:
  "fst (cmdDel demo_world (demo_args ''c1'') ((fresh (Some file_c1))\<lparr>writable := False\<rparr>)) = Success
   \<and> jsonFile (snd (cmdDel demo_world (demo_args ''c1'') ((fresh (Some file_c1))\<lparr>writable := False\<rparr>)))
       = Some file_c1"
  by (simp add: cmdDel_def demo_defs store_defs helper_defs file_c1_def)

text \<open>
  Claim C5 says that loading the store when the file does not exist gives the empty
  mapping and no error, and that a file that exists and cannot be decoded makes the
  invocation fail. The first half holds (\<open>load_missing_file\<close> below). The second does
  not: \<open>readHostInterfacesFromFile\<close> returns the decoding error, and both commands
  drop it. With a file of bytes that are no JSON, the helper reports the error, DEL
  returns success, and ADD returns success and replaces the file by a mapping that holds
  its own entry only.
\<close>

theorem corrupt_store_is_ignored:
  "fst (readHostInterfacesFromFile demo_world (fresh (Some file_garbage))) = Some DecodeJSONError
   \<and> fst (cmdDel demo_world (demo_args ''c1'') (fresh (Some file_garbage))) = Success
   \<and> jsonFile (snd (cmdDel demo_world (demo_args ''c1'') (fresh (Some file_garbage)))) = Some file_garbage
   \<and> fst (cmdAdd demo_world (demo_args ''c1'') (fresh (Some file_garbage))) = Success
   \<and> jsonFile (snd (cmdAdd demo_world (demo_args ''c1'') (fresh (Some file_garbage)))) = Some file_c1"
  by (simp add: cmdAdd_def cmdAdd_in_netns_def cmdDel_def demo_defs store_defs helper_defs
      demo_result_def file_garbage_def file_c1_def)

lemma load_missing_file:
  "jsonFile s = None \<Longrightarrow> readHostInterfacesFromFile w s = (None, emit ReadFile s)"
  by (simp add: readHostInterfacesFromFile_def ioutil_ReadFile_def)

lemma load_corrupt_file:
  assumes "jsonFile s = Some b" and "readable s" and "json_Unmarshal_map w b = DecodeError m"
  shows "readHostInterfacesFromFile w s = (Some DecodeJSONError, emit ReadFile s)"
  using assms
  by (simp add: readHostInterfacesFromFile_def ioutil_ReadFile_def json_Unmarshal_into_def emit_def)

subsection \<open>ADD that fails before the store is touched\<close>

text \<open>
  Claim C3: an ADD that fails at a step before the state store is persisted (the
  configuration, the bridge, the namespace, the veth pair, the port, the IPAM request,
  the conversion of its result, the test for an address, the configuration of the
  interface) creates no record: the state file is as it was, the map is as it was, and
  the state file has been neither read nor written. The only error ADD returns after the
  store has been written is the result printer's.
\<close>

theorem cmdAdd_failure_leaves_no_record:
  assumes "cmdAdd w args s = (Failure e, s')" and "\<forall>m. e \<noteq> PrintResultError m"
  shows "jsonFile s' = jsonFile s \<and> hostInterfaces s' = hostInterfaces s \<and>
         (\<exists>evs. trace s' = trace s @ evs \<and> ReadFile \<notin> set evs \<and> (\<forall>b. WriteFile b \<notin> set evs))"
  using assms
  unfolding cmdAdd_def cmdAdd_in_netns_def helper_defs Let_def
  by (auto split: sum.splits option.splits prod.splits if_splits)

theorem cmdAdd_failure_leaves_no_record_witness:
  "fst (cmdAdd unconfigurable_world (demo_args ''c2'') (fresh (Some file_c1)))
     = Failure (ConfigureIfaceError ''failed to add IP addr'')
   \<and> jsonFile (snd (cmdAdd unconfigurable_world (demo_args ''c2'') (fresh (Some file_c1)))) = Some file_c1
   \<and> hostInterfaces (snd (cmdAdd unconfigurable_world (demo_args ''c2'') (fresh (Some file_c1)))) = Some []"
proof -
  have run: "fst (cmdAdd unconfigurable_world (demo_args ''c2'') (fresh (Some file_c1)))
               = Failure (ConfigureIfaceError ''failed to add IP addr'')"
    by (simp add: cmdAdd_def cmdAdd_in_netns_def demo_defs helper_defs demo_result_def)
  then have eq: "cmdAdd unconfigurable_world (demo_args ''c2'') (fresh (Some file_c1))
          = (Failure (ConfigureIfaceError ''failed to add IP addr''),
             snd (cmdAdd unconfigurable_world (demo_args ''c2'') (fresh (Some file_c1))))"
    by (metis prod.collapse)
  show ?thesis
    using run cmdAdd_failure_leaves_no_record [OF eq] by (simp add: fresh_def)
qed

text \<open>The steps, and the error each returns when it fails.\<close>

lemma cmdAdd_step_failures:
  "json_Unmarshal_config w (StdinData args) = Inl err \<Longrightarrow> fst (cmdAdd w args s) = Failure (UnmarshalError err)"
  "json_Unmarshal_config w (StdinData args) = Inr config \<Longrightarrow> ovs_AddBridge w (PublicBridgeName config) = Some err
     \<Longrightarrow> fst (cmdAdd w args s) = Failure (AddBridgeError (PublicBridgeName config) err)"
  "json_Unmarshal_config w (StdinData args) = Inr config \<Longrightarrow> ovs_AddBridge w (PublicBridgeName config) = None
     \<Longrightarrow> ns_GetNS w (Netns args) = Inl err
     \<Longrightarrow> fst (cmdAdd w args s) = Failure (OpenNetnsError (Netns args) err)"
  by (simp_all add: cmdAdd_def createOvsBr_def Let_def)

lemma cmdAdd_in_netns_step_failures:
  "ip_SetupVeth w netns (IfName args) DefaultMTU = Inl err
     \<Longrightarrow> fst (cmdAdd_in_netns w args config netns s) = Failure (SetupVethError err)"
  "ip_SetupVeth w netns (IfName args) DefaultMTU = Inr (h, c)
     \<Longrightarrow> ovs_AddPort w (PublicBridgeName config) (ni_Name h) = Some err
     \<Longrightarrow> fst (cmdAdd_in_netns w args config netns s)
           = Failure (AddPortError (ni_Name h) (PublicBridgeName config) err)"
  "ip_SetupVeth w netns (IfName args) DefaultMTU = Inr (h, c)
     \<Longrightarrow> ovs_AddPort w (PublicBridgeName config) (ni_Name h) = None
     \<Longrightarrow> ipam_ExecAdd w (IPAM_Type config) (StdinData args) = Inl err
     \<Longrightarrow> fst (cmdAdd_in_netns w args config netns s) = Failure (ExecAddError err)"
  "ip_SetupVeth w netns (IfName args) DefaultMTU = Inr (h, c)
     \<Longrightarrow> ovs_AddPort w (PublicBridgeName config) (ni_Name h) = None
     \<Longrightarrow> ipam_ExecAdd w (IPAM_Type config) (StdinData args) = Inr r
     \<Longrightarrow> current_NewResultFromResult w r = Inl err
     \<Longrightarrow> fst (cmdAdd_in_netns w args config netns s) = Failure (NewResultError err)"
  "ip_SetupVeth w netns (IfName args) DefaultMTU = Inr (h, c)
     \<Longrightarrow> ovs_AddPort w (PublicBridgeName config) (ni_Name h) = None
     \<Longrightarrow> ipam_ExecAdd w (IPAM_Type config) (StdinData args) = Inr r
     \<Longrightarrow> current_NewResultFromResult w r = Inr result
     \<Longrightarrow> IPs result = []
     \<Longrightarrow> fst (cmdAdd_in_netns w args config netns s) = Failure NoIPAddress"
  "ip_SetupVeth w netns (IfName args) DefaultMTU = Inr (h, c)
     \<Longrightarrow> ovs_AddPort w (PublicBridgeName config) (ni_Name h) = None
     \<Longrightarrow> ipam_ExecAdd w (IPAM_Type config) (StdinData args) = Inr r
     \<Longrightarrow> current_NewResultFromResult w r = Inr result
     \<Longrightarrow> IPs result \<noteq> []
     \<Longrightarrow> ipam_ConfigureIface w netns (ni_Name c)
           (result\<lparr>IPs := map (\<lambda>ip. ip\<lparr>ip_Interface := Some 0\<rparr>) (IPs result),
                   Interfaces := [\<lparr>if_Name = ni_Name c, if_Mac = ni_HardwareAddr c,
                                   if_Sandbox = ns_Path netns\<rparr>]\<rparr>) = Some err
     \<Longrightarrow> fst (cmdAdd_in_netns w args config netns s) = Failure (ConfigureIfaceError err)"
  by (simp_all add: cmdAdd_in_netns_def createVeth_def addOvsPort_def Let_def)

text \<open>rainier.go's ADD returns nil after the store is written, so each of its failures
  comes before.\<close>

lemma rainier_cmdAdd_failure_leaves_no_record:
  assumes "rainier_cmdAdd w args s = (Failure e, s')"
  shows "jsonFile s' = jsonFile s \<and> hostInterfaces s' = hostInterfaces s \<and>
         (\<exists>evs. trace s' = trace s @ evs \<and> ReadFile \<notin> set evs \<and> (\<forall>b. WriteFile b \<notin> set evs))"
  using assms
  unfolding rainier_cmdAdd_def helper_defs Let_def
  by (auto split: sum.splits option.splits prod.splits if_splits)

subsection \<open>Parsing the configuration\<close>

text \<open>
  Claim C6 says that parsing fails when the bytes cannot be decoded or when the switch
  name is absent or empty, and that ADD does not go on to create a bridge without a switch
  name. As stated it fails: the commands test the error of \<open>json.Unmarshal\<close> and
  nothing else. For the configuration \<open>{}\<close> the decoder leaves the switch name empty
  and returns no error, and ADD calls the OVS client for the bridge with the empty name;
  the error it returns is the client's.
\<close>

theorem cmdAdd_empty_bridge_name_counterexample:
  "json_Unmarshal_config demo_world ''{}'' = Inr zero_config
   \<and> PublicBridgeName zero_config = []
   \<and> cmdAdd demo_world ((demo_args ''c1'')\<lparr>StdinData := ''{}''\<rparr>) (fresh None) =
       (Failure (AddBridgeError [] ''ovs-vsctl: bridge name must not be empty''),
        (fresh None)\<lparr>trace := [AddBridge []]\<rparr>)"
  by (simp add: cmdAdd_def demo_defs helper_defs zero_config_def demo_stdin_def)

text \<open>
  Claim C6, amended: the commands fail at parsing, before any other call and with the
  decoder's error, when \<open>json.Unmarshal\<close> cannot decode the bytes; when it can, no
  parsing error is returned, whatever the switch name (absent and empty included), and the
  first call ADD makes is the creation of the bridge with the decoded name.
\<close>

theorem config_parse_checks_decoding_only:
  "(json_Unmarshal_config w (StdinData args) = Inl err \<longrightarrow>
      cmdAdd w args s = (Failure (UnmarshalError err), s)
      \<and> cmdDel w args s = (Failure (UnmarshalError err), s))
   \<and> (json_Unmarshal_config w (StdinData args) = Inr config \<longrightarrow>
      (\<exists>evs. trace (snd (cmdAdd w args s)) = trace s @ AddBridge (PublicBridgeName config) # evs)
      \<and> (\<forall>m. fst (cmdAdd w args s) \<noteq> Failure (UnmarshalError m))
      \<and> (\<forall>m. fst (cmdDel w args s) \<noteq> Failure (UnmarshalError m)))"
proof (intro conjI impI allI)
  assume "json_Unmarshal_config w (StdinData args) = Inl err"
  then show "cmdAdd w args s = (Failure (UnmarshalError err), s)"
    and "cmdDel w args s = (Failure (UnmarshalError err), s)"
    by (simp_all add: cmdAdd_def cmdDel_def)
next
  assume c: "json_Unmarshal_config w (StdinData args) = Inr config"
  let ?s2 = "emit (GetNS (Netns args)) (emit (AddBridge (PublicBridgeName config)) s)"
  show "\<exists>evs. trace (snd (cmdAdd w args s)) = trace s @ AddBridge (PublicBridgeName config) # evs"
  proof (cases "ovs_AddBridge w (PublicBridgeName config)")
    case (Some e)
    with c show ?thesis by (simp add: cmdAdd_def createOvsBr_def emit_simps)
  next
    case None
    show ?thesis
    proof (cases "ns_GetNS w (Netns args)")
      case (Inl e)
      with c None show ?thesis by (simp add: cmdAdd_def createOvsBr_def emit_simps)
    next
      case (Inr netns)
      obtain evs where "trace (snd (cmdAdd_in_netns w args config netns ?s2)) = trace ?s2 @ evs"
        using cmdAdd_in_netns_extends_trace by blast
      with c None Inr show ?thesis
        by (simp add: cmdAdd_def createOvsBr_def emit_simps split_beta Let_def)
    qed
  qed
  fix m
  show "fst (cmdAdd w args s) \<noteq> Failure (UnmarshalError m)"
    using c cmdAdd_in_netns_no_unmarshal_error [of w args config _ ?s2 m]
    by (auto simp: cmdAdd_def createOvsBr_def Let_def split_beta split: sum.splits option.splits)
  show "fst (cmdDel w args s) \<noteq> Failure (UnmarshalError m)"
    using c
    by (auto simp: cmdDel_def deleteOvsPort_def Let_def split: option.splits prod.splits any.splits)
qed

theorem config_parse_checks_decoding_only_witness:
  "cmdAdd demo_world ((demo_args ''c1'')\<lparr>StdinData := ''{''\<rparr>) (fresh None)
      = (Failure (UnmarshalError ''invalid character''), fresh None)
   \<and> trace (snd (cmdAdd demo_world ((demo_args ''c1'')\<lparr>StdinData := ''{}''\<rparr>) (fresh None))) = [AddBridge []]"
proof -
  have 1: "json_Unmarshal_config demo_world (StdinData ((demo_args ''c1'')\<lparr>StdinData := ''{''\<rparr>))
            = Inl ''invalid character''"
    by (simp add: demo_defs demo_stdin_def)
  have 2: "json_Unmarshal_config demo_world (StdinData ((demo_args ''c1'')\<lparr>StdinData := ''{}''\<rparr>))
            = Inr zero_config"
    by (simp add: demo_defs demo_stdin_def)
  have 3: "trace (snd (cmdAdd demo_world ((demo_args ''c1'')\<lparr>StdinData := ''{}''\<rparr>) (fresh None))) = [AddBridge []]"
    by (simp add: cmdAdd_def demo_defs helper_defs zero_config_def demo_stdin_def)
  from config_parse_checks_decoding_only
         [of demo_world "(demo_args ''c1'')\<lparr>StdinData := ''{''\<rparr>" "''invalid character''" "fresh None" zero_config] 1
  have a: "cmdAdd demo_world ((demo_args ''c1'')\<lparr>StdinData := ''{''\<rparr>) (fresh None)
      = (Failure (UnmarshalError ''invalid character''), fresh None)"
    by blast
  from config_parse_checks_decoding_only
         [of demo_world "(demo_args ''c1'')\<lparr>StdinData := ''{}''\<rparr>" "''x''" "fresh None" zero_config] 2
  have b: "\<exists>evs. trace (snd (cmdAdd demo_world ((demo_args ''c1'')\<lparr>StdinData := ''{}''\<rparr>) (fresh None)))
              = trace (fresh None) @ AddBridge (PublicBridgeName zero_config) # evs"
    by blast
  show ?thesis using a b 3 by simp
qed

subsection \<open>The result of a successful ADD\<close>

text \<open>What a successful ADD has done: the printed result is the delegate's with every
  address bound to interface 0, the container's interface as the only interface and the
  configuration's DNS; the map holds the host interface under the container's ID; and the
  file holds the encoded map if it could be encoded and the file written.\<close>

lemma cmdAdd_in_netns_success:
  assumes "cmdAdd_in_netns w args config netns s = (Success, s')"
  shows "\<exists>hostVeth containerVeth r result.
      ip_SetupVeth w netns (IfName args) DefaultMTU = Inr (hostVeth, containerVeth)
    \<and> ipam_ExecAdd w (IPAM_Type config) (StdinData args) = Inr r
    \<and> current_NewResultFromResult w r = Inr result
    \<and> IPs result \<noteq> []
    \<and> emitted (trace s') = emitted (trace s) @
         [(result\<lparr>IPs := map (\<lambda>ip. ip\<lparr>ip_Interface := Some 0\<rparr>) (IPs result),
                  Interfaces := [\<lparr>if_Name = ni_Name containerVeth,
                                  if_Mac = ni_HardwareAddr containerVeth,
                                  if_Sandbox = ns_Path netns\<rparr>],
                  res_DNS := DNS config\<rparr>, CNIVersion config)]
    \<and> map_index (hostInterfaces s') (ContainerID args) = AStr (ni_Name hostVeth)"
  using assms
  unfolding cmdAdd_in_netns_def createVeth_def addOvsPort_def Let_def
  by (auto simp: emit_simps emitted_append emitted_write emitted_read write_simps
        map_assign_def map_index_def update_conv'
      split: sum.splits option.splits prod.splits if_splits)

lemma cmdAdd_in_netns_saved:
  assumes "cmdAdd_in_netns w args config netns s = (Success, s')"
    and "writable s" and "json_Marshal_map w (hostInterfaces s') = Inr b"
  shows "jsonFile s' = Some b"
  using assms
  unfolding cmdAdd_in_netns_def createVeth_def addOvsPort_def Let_def
  by (auto simp: emit_simps write_simps read_ignores_trace
      split: sum.splits option.splits prod.splits if_splits)

lemma cmdAdd_success:
  assumes "cmdAdd w args s = (Success, s')"
  shows "\<exists>config netns hostVeth containerVeth r result.
      json_Unmarshal_config w (StdinData args) = Inr config
    \<and> ns_GetNS w (Netns args) = Inr netns
    \<and> ip_SetupVeth w netns (IfName args) DefaultMTU = Inr (hostVeth, containerVeth)
    \<and> ipam_ExecAdd w (IPAM_Type config) (StdinData args) = Inr r
    \<and> current_NewResultFromResult w r = Inr result
    \<and> IPs result \<noteq> []
    \<and> emitted (trace s') = emitted (trace s) @
         [(result\<lparr>IPs := map (\<lambda>ip. ip\<lparr>ip_Interface := Some 0\<rparr>) (IPs result),
                  Interfaces := [\<lparr>if_Name = ni_Name containerVeth,
                                  if_Mac = ni_HardwareAddr containerVeth,
                                  if_Sandbox = ns_Path netns\<rparr>],
                  res_DNS := DNS config\<rparr>, CNIVersion config)]
    \<and> map_index (hostInterfaces s') (ContainerID args) = AStr (ni_Name hostVeth)
    \<and> (writable s \<longrightarrow> (\<forall>b. json_Marshal_map w (hostInterfaces s') = Inr b \<longrightarrow> jsonFile s' = Some b))"
proof -
  from assms obtain config where c: "json_Unmarshal_config w (StdinData args) = Inr config"
    by (auto simp: cmdAdd_def split: sum.splits)
  let ?s2 = "emit (GetNS (Netns args)) (emit (AddBridge (PublicBridgeName config)) s)"
  from assms c obtain netns where n: "ns_GetNS w (Netns args) = Inr netns"
    by (auto simp: cmdAdd_def createOvsBr_def Let_def split: sum.splits option.splits)
  from assms c n obtain s3 where
    body: "cmdAdd_in_netns w args config netns ?s2 = (Success, s3)"
    and s': "s' = emit (CloseNS (ns_Path netns)) s3"
    by (auto simp: cmdAdd_def createOvsBr_def Let_def split: sum.splits option.splits prod.splits)
  from cmdAdd_in_netns_success [OF body] obtain hostVeth containerVeth r result where
    "ip_SetupVeth w netns (IfName args) DefaultMTU = Inr (hostVeth, containerVeth)"
    "ipam_ExecAdd w (IPAM_Type config) (StdinData args) = Inr r"
    "current_NewResultFromResult w r = Inr result"
    "IPs result \<noteq> []"
    "emitted (trace s3) = emitted (trace ?s2) @
         [(result\<lparr>IPs := map (\<lambda>ip. ip\<lparr>ip_Interface := Some 0\<rparr>) (IPs result),
                  Interfaces := [\<lparr>if_Name = ni_Name containerVeth,
                                  if_Mac = ni_HardwareAddr containerVeth,
                                  if_Sandbox = ns_Path netns\<rparr>],
                  res_DNS := DNS config\<rparr>, CNIVersion config)]"
    "map_index (hostInterfaces s3) (ContainerID args) = AStr (ni_Name hostVeth)"
    by blast
  moreover have "writable s \<longrightarrow> (\<forall>b. json_Marshal_map w (hostInterfaces s') = Inr b \<longrightarrow> jsonFile s' = Some b)"
    using cmdAdd_in_netns_saved [OF body] by (simp add: s' emit_simps)
  ultimately show ?thesis
    using c n by (simp add: s' emit_simps emitted_append)
qed

text \<open>
  Claim C10: when ADD returns success, the result it prints has exactly one interface,
  the container's end of the veth pair (its name, hardware address and namespace path;
  the host's end is left out), every address of the result has interface index 0, and
  the DNS of the result is the one of the parsed configuration.
\<close>

theorem cmdAdd_success_result_shape:
  assumes "cmdAdd w args s = (Success, s')"
  shows "\<exists>config netns hostVeth containerVeth result.
      json_Unmarshal_config w (StdinData args) = Inr config
    \<and> ns_GetNS w (Netns args) = Inr netns
    \<and> ip_SetupVeth w netns (IfName args) DefaultMTU = Inr (hostVeth, containerVeth)
    \<and> emitted (trace s') = emitted (trace s) @ [(result, CNIVersion config)]
    \<and> Interfaces result = [\<lparr>if_Name = ni_Name containerVeth,
                              if_Mac = ni_HardwareAddr containerVeth,
                              if_Sandbox = ns_Path netns\<rparr>]
    \<and> (\<forall>ip \<in> set (IPs result). ip_Interface ip = Some 0)
    \<and> res_DNS result = DNS config"
proof -
  from cmdAdd_success [OF assms] obtain config netns hostVeth containerVeth r result where
    h: "json_Unmarshal_config w (StdinData args) = Inr config"
       "ns_GetNS w (Netns args) = Inr netns"
       "ip_SetupVeth w netns (IfName args) DefaultMTU = Inr (hostVeth, containerVeth)"
       "emitted (trace s') = emitted (trace s) @
         [(result\<lparr>IPs := map (\<lambda>ip. ip\<lparr>ip_Interface := Some 0\<rparr>) (IPs result),
                  Interfaces := [\<lparr>if_Name = ni_Name containerVeth,
                                  if_Mac = ni_HardwareAddr containerVeth,
                                  if_Sandbox = ns_Path netns\<rparr>],
                  res_DNS := DNS config\<rparr>, CNIVersion config)]"
    by blast
  let ?res = "result\<lparr>IPs := map (\<lambda>ip. ip\<lparr>ip_Interface := Some 0\<rparr>) (IPs result),
                  Interfaces := [\<lparr>if_Name = ni_Name containerVeth,
                                  if_Mac = ni_HardwareAddr containerVeth,
                                  if_Sandbox = ns_Path netns\<rparr>],
                  res_DNS := DNS config\<rparr>"
  have "Interfaces ?res = [\<lparr>if_Name = ni_Name containerVeth,
                              if_Mac = ni_HardwareAddr containerVeth,
                              if_Sandbox = ns_Path netns\<rparr>]"
    and "\<forall>ip \<in> set (IPs ?res). ip_Interface ip = Some 0"
    and "res_DNS ?res = DNS config"
    by auto
  with h show ?thesis by blast
qed

theorem cmdAdd_success_result_shape_witness:
  "fst (cmdAdd demo_world (demo_args ''c1'') (fresh None)) = Success
   \<and> emitted (trace (snd (cmdAdd demo_world (demo_args ''c1'') (fresh None)))) =
       [(\<lparr>res_CNIVersion = ''0.3.1'',
          Interfaces = [\<lparr>if_Name = ''eth0'', if_Mac = ''0a:58:0a:00:00:02'',
                          if_Sandbox = ''/var/run/netns/c1''\<rparr>],
          IPs = [\<lparr>ip_Version = ''4'', ip_Interface = Some 0,
                  ip_Address = ''10.0.0.2/24'', ip_Gateway = ''10.0.0.1''\<rparr>],
          Routes = [],
          res_DNS = \<lparr>Nameservers = [''8.8.8.8''], Domain = [], Search = [], Options = []\<rparr>\<rparr>,
         ''0.3.1'')]"
proof -
  have run: "fst (cmdAdd demo_world (demo_args ''c1'') (fresh None)) = Success"
    by (simp add: cmdAdd_def cmdAdd_in_netns_def demo_defs store_defs helper_defs demo_result_def)
  then have eq: "cmdAdd demo_world (demo_args ''c1'') (fresh None)
          = (Success, snd (cmdAdd demo_world (demo_args ''c1'') (fresh None)))"
    by (metis prod.collapse)
  from cmdAdd_success_result_shape [OF eq] obtain config netns hostVeth containerVeth result where
    h: "json_Unmarshal_config demo_world (StdinData (demo_args ''c1'')) = Inr config"
       "emitted (trace (snd (cmdAdd demo_world (demo_args ''c1'') (fresh None))))
          = emitted (trace (fresh None)) @ [(result, CNIVersion config)]"
    by blast
  have "emitted (trace (snd (cmdAdd demo_world (demo_args ''c1'') (fresh None)))) =
       [(\<lparr>res_CNIVersion = ''0.3.1'',
          Interfaces = [\<lparr>if_Name = ''eth0'', if_Mac = ''0a:58:0a:00:00:02'',
                          if_Sandbox = ''/var/run/netns/c1''\<rparr>],
          IPs = [\<lparr>ip_Version = ''4'', ip_Interface = Some 0,
                  ip_Address = ''10.0.0.2/24'', ip_Gateway = ''10.0.0.1''\<rparr>],
          Routes = [],
          res_DNS = \<lparr>Nameservers = [''8.8.8.8''], Domain = [], Search = [], Options = []\<rparr>\<rparr>,
         ''0.3.1'')]"
    by (simp add: cmdAdd_def cmdAdd_in_netns_def demo_defs store_defs helper_defs demo_result_def)
  with run h show ?thesis by simp
qed

text \<open>
  Claim C7 says that after a successful ADD the result has at least one address, each
  address refers to a valid index of the interface list, and the state store holds the
  container's entry with the host interface. The first two hold, and the map in memory
  holds the entry (\<open>cmdAdd_success_result_and_store\<close>). The file holds it only if the
  write succeeded, and ADD does not test that: with a state file that holds \<open>c1\<close> and
  cannot be written, the ADD of \<open>c2\<close> returns success and the file still holds \<open>c1\<close>
  alone.
\<close>

theorem cmdAdd_success_without_saved_entry:
  "fst (cmdAdd demo_world (demo_args ''c2'') ((fresh (Some file_c1))\<lparr>writable := False\<rparr>)) = Success
   \<and> map_index (hostInterfaces (snd (cmdAdd demo_world (demo_args ''c2'')
         ((fresh (Some file_c1))\<lparr>writable := False\<rparr>)))) ''c2'' = AStr ''veth-c2''
   \<and> jsonFile (snd (cmdAdd demo_world (demo_args ''c2'') ((fresh (Some file_c1))\<lparr>writable := False\<rparr>)))
       = Some file_c1
   \<and> json_Unmarshal_map demo_world file_c1 = DecodeObject [(''c1'', AStr ''veth-c1'')]"
  by (simp add: cmdAdd_def cmdAdd_in_netns_def demo_defs store_defs helper_defs demo_result_def
      file_c1_def)

lemma cmdAdd_success_result_and_store:
  assumes "cmdAdd w args s = (Success, s')"
  shows "\<exists>netns hostVeth containerVeth result version.
      ip_SetupVeth w netns (IfName args) DefaultMTU = Inr (hostVeth, containerVeth)
    \<and> emitted (trace s') = emitted (trace s) @ [(result, version)]
    \<and> IPs result \<noteq> []
    \<and> (\<forall>ip \<in> set (IPs result). \<exists>i. ip_Interface ip = Some i \<and> 0 \<le> i \<and> i < int (length (Interfaces result)))
    \<and> map_index (hostInterfaces s') (ContainerID args) = AStr (ni_Name hostVeth)
    \<and> (writable s \<longrightarrow> (\<forall>b. json_Marshal_map w (hostInterfaces s') = Inr b \<longrightarrow> jsonFile s' = Some b))"
proof -
  from cmdAdd_success [OF assms] obtain config netns hostVeth containerVeth r result where
    h: "ip_SetupVeth w netns (IfName args) DefaultMTU = Inr (hostVeth, containerVeth)"
       "json_Unmarshal_config w (StdinData args) = Inr config"
       "IPs result \<noteq> []"
       "emitted (trace s') = emitted (trace s) @
         [(result\<lparr>IPs := map (\<lambda>ip. ip\<lparr>ip_Interface := Some 0\<rparr>) (IPs result),
                  Interfaces := [\<lparr>if_Name = ni_Name containerVeth,
                                  if_Mac = ni_HardwareAddr containerVeth,
                                  if_Sandbox = ns_Path netns\<rparr>],
                  res_DNS := DNS config\<rparr>, CNIVersion config)]"
       "map_index (hostInterfaces s') (ContainerID args) = AStr (ni_Name hostVeth)"
       "writable s \<longrightarrow> (\<forall>b. json_Marshal_map w (hostInterfaces s') = Inr b \<longrightarrow> jsonFile s' = Some b)"
    by blast
  let ?res = "result\<lparr>IPs := map (\<lambda>ip. ip\<lparr>ip_Interface := Some 0\<rparr>) (IPs result),
                  Interfaces := [\<lparr>if_Name = ni_Name containerVeth,
                                  if_Mac = ni_HardwareAddr containerVeth,
                                  if_Sandbox = ns_Path netns\<rparr>],
                  res_DNS := DNS config\<rparr>"
  have "IPs ?res \<noteq> []"
    and "\<forall>ip \<in> set (IPs ?res). \<exists>i. ip_Interface ip = Some i \<and> 0 \<le> i \<and> i < int (length (Interfaces ?res))"
    using h(3) by auto
  with h show ?thesis by blast
qed

subsection \<open>Saving and loading the state store\<close>




text \<open>The codec defined above reads back what it wrote for every mapping of plain
  entries, in the order of the keys; so with it a save followed by a load in a new
  process reproduces each of these mappings.\<close>

lemma encode_chars_safe: "list_all html_safe s \<Longrightarrow> encode_chars 0 s = s"
  by (induction s) (auto simp: html_safe_def)

lemma decode_chars_safe:
  "list_all html_safe s \<Longrightarrow> decode_chars 0 (s @ dquote # rest) = Some (s, rest)"
  by (induction s) (auto simp: html_safe_def prepend_def)

lemma skip_space_no_space: "\<not> is_space c \<Longrightarrow> skip_space (c # cs) = c # cs"
  by (simp add: skip_space_def)

lemma not_space: "\<not> is_space dquote" "\<not> is_space (CHR '':'')" "\<not> is_space (CHR '','')"
  "\<not> is_space (CHR ''}'')"
  by (simp_all add: is_space_def dquote_def)

lemma decode_member_rendered:
  assumes "plain_member kv" and "\<not> is_space c"
  shows "decode_member (render_members [kv] @ c # rest) = Some (kv, c # rest)"
proof -
  from assms(1) obtain k x where kv: "kv = (k, AStr x)"
    and k: "list_all html_safe k" and x: "list_all html_safe x"
    by (cases kv; cases "snd kv") auto
  show ?thesis
    using decode_chars_safe [OF k, of "CHR '':'' # dquote # x @ dquote # c # rest"]
      decode_chars_safe [OF x, of "c # rest"] assms(2)
    by (simp add: kv decode_member_def encode_string_def encode_value_def encode_chars_safe k x
        skip_space_no_space not_space decode_value_def)
qed

lemma render_members_Cons:
  "render_members (kv # kvs) =
     render_members [kv] @ (if kvs = [] then [] else CHR '','' # render_members kvs)"
  by (cases kv) simp

lemma render_members_nonempty: "m \<noteq> [] \<Longrightarrow> render_members m \<noteq> []"
  by (cases m) (auto simp: encode_string_def)

lemma decode_members_rendered:
  "list_all plain_member m \<Longrightarrow> m \<noteq> [] \<Longrightarrow> length m \<le> n
     \<Longrightarrow> decode_members n (render_members m @ CHR ''}'' # rest) = Some (m, rest)"
proof (induction m arbitrary: n)
  case Nil
  then show ?case by simp
next
  case (Cons kv m)
  from Cons.prems have p: "plain_member kv" by simp
  from Cons.prems obtain n' where n: "n = Suc n'" and n': "length m \<le> n'"
    by (cases n) auto
  show ?case
  proof (cases "m = []")
    case True
    then show ?thesis
      using decode_member_rendered [OF p not_space(4), of rest] by (simp add: n)
  next
    case False
    then have ih: "decode_members n' (render_members m @ CHR ''}'' # rest) = Some (m, rest)"
      using Cons.IH [of n'] Cons.prems n' by simp
    have "decode_member (render_members (kv # m) @ CHR ''}'' # rest)
            = Some (kv, CHR '','' # render_members m @ CHR ''}'' # rest)"
      using decode_member_rendered [OF p not_space(3), of "render_members m @ CHR ''}'' # rest"] False
      by (simp add: render_members_Cons [of kv m])
    then show ?thesis
      using ih by (simp add: n)
  qed
qed

lemma length_render_members: "length m \<le> length (render_members m)"
  by (induction m rule: render_members.induct) (auto simp: encode_string_def)

lemma demo_codec_roundtrip:
  assumes "list_all plain_member m"
  shows "\<exists>b. json_Marshal_map demo_world (Some m) = Inr b
           \<and> json_Unmarshal_map demo_world b = DecodeObject (sort_key fst m)"
proof -
  let ?m = "sort_key fst m"
  have pm: "list_all plain_member ?m"
    using assms by (simp add: list_all_iff)
  show ?thesis
  proof (cases "m = []")
    case True
    then show ?thesis
      by (simp add: demo_world_def demo_Marshal_map_def demo_Unmarshal_map_def skip_space_def
          is_space_def)
  next
    case False
    then have ne: "?m \<noteq> []" by (metis length_0_conv length_sort)
    have "length ?m \<le> length (render_members ?m @ ''}'')"
      using length_render_members [of ?m] by simp
    then have "decode_members (length (render_members ?m @ ''}'')) (render_members ?m @ ''}'')
                 = Some (?m, [])"
      by (rule decode_members_rendered [OF pm ne])
    moreover obtain c cs where "render_members ?m = c # cs" "c = dquote"
      using ne by (cases ?m) (auto simp: encode_string_def)
    ultimately show ?thesis
      by (simp add: demo_world_def demo_Marshal_map_def demo_Unmarshal_map_def skip_space_def
          is_space_def dquote_def)
  qed
qed

lemma sort_key_fst_map_of:
  assumes "distinct (map fst m)"
  shows "distinct (map fst (sort_key fst m))" and "map_of (sort_key fst m) = map_of m"
proof -
  show d: "distinct (map fst (sort_key fst m))"
    using assms by (simp add: distinct_map inj_on_def)
  show "map_of (sort_key fst m) = map_of m"
    by (subst map_of_inject_set [OF d assms]) simp
qed

lemma demo_save_then_load:
  assumes "list_all plain_member m" and "distinct (map fst m)"
  shows "\<exists>m'. hostInterfaces (snd (readHostInterfacesFromFile demo_world
                  (fresh (jsonFile (snd (writeHostInterfacesToFile demo_world
                     ((fresh content)\<lparr>hostInterfaces := Some m\<rparr>)))))))
                = Some m'
              \<and> map_of m' = map_of m"
proof -
  from demo_codec_roundtrip [OF assms(1)] obtain b where
    b: "json_Marshal_map demo_world (Some m) = Inr b"
       "json_Unmarshal_map demo_world b = DecodeObject (sort_key fst m)"
    by blast
  note srt = sort_key_fst_map_of [OF assms(2)]
  from json_Unmarshal_into_object [OF b(2) srt(1), of "[]"] obtain m' where
    m': "json_Unmarshal_into demo_world b (Some []) = (None, Some m')"
        "map_of m' = map_of (sort_key fst m)"
    by auto
  have "jsonFile (snd (writeHostInterfacesToFile demo_world
          ((fresh content)\<lparr>hostInterfaces := Some m\<rparr>))) = Some b"
    using b(1) by (simp add: write_simps fresh_def)
  then show ?thesis
    using m' srt(2)
    by (simp add: readHostInterfacesFromFile_def ioutil_ReadFile_def emit_simps fresh_def)
qed

subsection \<open>Two invocations at once\<close>

lemmas sys_defs = exec_stmt_def view_def set_map_def map_of_proc_def start_def demo_entry_def

text \<open>
  Claim C9 says that the load, change and save of the store run under an exclusive lock
  on the state file, released on every path, so that of two invocations at once (ADD of
  \<open>A\<close> and ADD of \<open>B\<close>) both entries survive. As stated it fails: the plugin
  takes no lock, and nothing keeps one process from loading before the other has saved.
  When both processes load the (missing) file, then both assign, then \<open>PA\<close> saves and
  then \<open>PB\<close> saves, the file holds the entry of \<open>PB\<close> alone: the entry of \<open>PA\<close>
  is lost.
\<close>

theorem overlapping_adds_lose_an_entry:
  "run demo_world demo_entry overlapping (start None)
     = Some \<lparr>shared_file = Some file_c2,
             mapA = Some [(''c1'', AStr ''veth-c1'')],
             mapB = Some [(''c2'', AStr ''veth-c2'')]\<rparr>
   \<and> json_Unmarshal_map demo_world file_c2 = DecodeObject [(''c2'', AStr ''veth-c2'')]"
  by (simp add: overlapping_def sys_defs demo_defs store_defs emit_def file_c2_def)

text \<open>The three statements of one process, run without the other in between.\<close>

lemma load_put_save:
  assumes "hostInterfaces (snd (readHostInterfacesFromFile w (view p y))) = Some loaded"
  shows "run w entry ((p, Load) # (p, Put) # (p, Save) # rest) y =
           run w entry rest
             ((set_map p (Some (AList.update (fst (entry p)) (AStr (snd (entry p))) loaded)) y)
                \<lparr>shared_file :=
                   (case json_Marshal_map w
                           (Some (AList.update (fst (entry p)) (AStr (snd (entry p))) loaded)) of
                      Inl _ \<Rightarrow> shared_file y
                    | Inr b \<Rightarrow> Some b)\<rparr>)"
  using assms
  by (cases p)
     (simp_all add: exec_stmt_def map_of_proc_def set_map_def map_assign_def view_def
        write_simps split: sum.splits)

text \<open>
  Claim C9, amended: no lock is taken. When the load, change and save of one invocation
  are over before those of the other begin, both entries survive: if the first process
  loads a map, and the encoder encodes that map with the first entry to bytes that the
  decoder reads back as an object with the same entries, then at the end the map of the
  second process holds both entries (for different container IDs) and the file holds
  that map, encoded (or still the first process's bytes, if it cannot be encoded). When
  the two sequences overlap, the later save replaces what the earlier one wrote.
\<close>

theorem sequential_adds_keep_both:
  assumes ids: "fst (entry PA) \<noteq> fst (entry PB)"
    and loadA: "hostInterfaces (snd (readHostInterfacesFromFile w (view PA (start content)))) = Some loaded"
    and encA: "json_Marshal_map w (Some (AList.update (fst (entry PA)) (AStr (snd (entry PA))) loaded)) = Inr bA"
    and decA: "json_Unmarshal_map w bA = DecodeObject kvs" "distinct (map fst kvs)"
              "map_of kvs = map_of (AList.update (fst (entry PA)) (AStr (snd (entry PA))) loaded)"
  shows "\<exists>m. run w entry one_after_the_other (start content)
              = Some \<lparr>shared_file = (case json_Marshal_map w (Some m) of
                                       Inl _ \<Rightarrow> Some bA
                                     | Inr bB \<Rightarrow> Some bB),
                      mapA = Some (AList.update (fst (entry PA)) (AStr (snd (entry PA))) loaded),
                      mapB = Some m\<rparr>
           \<and> map_of m (fst (entry PA)) = Some (AStr (snd (entry PA)))
           \<and> map_of m (fst (entry PB)) = Some (AStr (snd (entry PB)))"
proof -
  let ?mA = "AList.update (fst (entry PA)) (AStr (snd (entry PA))) loaded"
  let ?y1 = "(set_map PA (Some ?mA) (start content))\<lparr>shared_file := Some bA\<rparr>"
  have stepA: "run w entry one_after_the_other (start content)
                 = run w entry [(PB, Load), (PB, Put), (PB, Save)] ?y1"
    unfolding one_after_the_other_def
    using load_put_save [where entry = entry and p = PA, OF loadA] encA by simp
  from json_Unmarshal_into_object [OF decA(1,2), of "[]"] obtain mB0 where
    mB0: "json_Unmarshal_into w bA (Some []) = (None, Some mB0)" "map_of mB0 = map_of kvs"
    by auto
  have loadB: "hostInterfaces (snd (readHostInterfacesFromFile w (view PB ?y1))) = Some mB0"
    using mB0(1)
    by (simp add: view_def set_map_def map_of_proc_def start_def readHostInterfacesFromFile_def
        ioutil_ReadFile_def emit_def)
  let ?mB = "AList.update (fst (entry PB)) (AStr (snd (entry PB))) mB0"
  have mB: "map_of ?mB = (map_of loaded)(fst (entry PA) \<mapsto> AStr (snd (entry PA)),
                                          fst (entry PB) \<mapsto> AStr (snd (entry PB)))"
    by (simp add: update_conv' mB0(2) decA(3))
  have stepB: "run w entry [(PB, Load), (PB, Put), (PB, Save)] ?y1
                 = Some ((set_map PB (Some ?mB) ?y1)
                      \<lparr>shared_file := (case json_Marshal_map w (Some ?mB) of
                                          Inl _ \<Rightarrow> Some bA | Inr bB \<Rightarrow> Some bB)\<rparr>)"
    using load_put_save [where entry = entry and p = PB and rest = "[]", OF loadB]
    by (cases "json_Marshal_map w (Some ?mB)") (simp_all add: set_map_def del: run.simps(2))
  show ?thesis
    apply (rule exI [of _ ?mB])
    using stepA stepB mB ids
    by (simp add: set_map_def start_def)
qed

theorem sequential_adds_keep_both_witness:
  "run demo_world demo_entry one_after_the_other (start None)
     = Some \<lparr>shared_file = Some file_c1_c2,
             mapA = Some [(''c1'', AStr ''veth-c1'')],
             mapB = Some [(''c1'', AStr ''veth-c1''), (''c2'', AStr ''veth-c2'')]\<rparr>"
proof -
  have 1: "fst (demo_entry PA) \<noteq> fst (demo_entry PB)"
    by (simp add: demo_entry_def)
  have 2: "hostInterfaces (snd (readHostInterfacesFromFile demo_world (view PA (start None)))) = Some []"
    by (simp add: sys_defs store_defs emit_def)
  have 3: "json_Marshal_map demo_world
             (Some (AList.update (fst (demo_entry PA)) (AStr (snd (demo_entry PA))) [])) = Inr file_c1"
    by (simp add: demo_defs demo_entry_def file_c1_def)
  have 4: "json_Unmarshal_map demo_world file_c1 = DecodeObject [(''c1'', AStr ''veth-c1'')]"
    by (simp add: demo_defs file_c1_def)
  have 5: "distinct (map fst [(''c1'', AStr ''veth-c1'')])" by simp
  have 6: "map_of [(''c1'', AStr ''veth-c1'')]
             = map_of (AList.update (fst (demo_entry PA)) (AStr (snd (demo_entry PA))) [])"
    by (simp add: demo_entry_def)
  have run: "run demo_world demo_entry one_after_the_other (start None)
     = Some \<lparr>shared_file = Some file_c1_c2,
             mapA = Some [(''c1'', AStr ''veth-c1'')],
             mapB = Some [(''c1'', AStr ''veth-c1''), (''c2'', AStr ''veth-c2'')]\<rparr>"
    by (simp add: one_after_the_other_def sys_defs demo_defs store_defs emit_def
        file_c1_c2_def)
  show ?thesis
    using sequential_adds_keep_both [OF 1 2 3 4 5 6] run by simp
qed

end
